theory Spec2Isabelle
  imports Main
begin

section \<open>PetNet: adoption requests and publication availability\<close>

text \<open>
  A shallow embedding of the request controller
  (\<^verbatim>\<open>be-petnet/controllers/requestController.js\<close>) and of the publication
  controller (\<^verbatim>\<open>publicationController.js\<close>) of PetNet.

  Modelling decisions, each following the JavaScript:
  \<^item> a string is the list of the bytes of its UTF-8 encoding (a string with an unpaired
    surrogate has none and is outside the model);
  \<^item> a value of a request body is a \<open>jsval\<close>: undefined, null, a boolean, a number or a
    string (arrays and objects are outside the model); a number is given by the string
    that \<^verbatim>\<open>String(n)\<close> prints for it, which is all the handlers read of a number; a path
    parameter (\<^verbatim>\<open>req.params.id\<close>) is a string; the body itself is an object and
    \<^verbatim>\<open>req.user.userId\<close> an integer, as the JSON parser and the authentication
    middleware leave them;
  \<^item> a table of the store is the list of its rows; a key column holds signed 64-bit
    integers, and a lookup by a key outside that range makes Prisma throw; an
    \<^verbatim>\<open>AUTOINCREMENT\<close> key is one more than every key the table holds or ever held;
  \<^item> a handler returns an \<open>outcome\<close>: the store states it commits, in order (every
    awaited Prisma statement outside \<^verbatim>\<open>prisma.$transaction\<close> commits by itself, a
    \<^verbatim>\<open>$transaction\<close> block commits once or not at all), the calls it makes to the
    mail service (in each handler they come after its last write), and the HTTP response;
  \<^item> an exception caught by the handler's \<^verbatim>\<open>catch\<close> is the response with status 500;
    the statements that throw are: a Prisma lookup by a key outside the 64-bit range, a
    Prisma write whose data has the wrong type or breaks a foreign key, a property read
    on \<^verbatim>\<open>null\<close>, and the mail service when it fails (the parameter \<open>mailOk\<close>);
  \<^item> a response is its status, its messages and its payload; the texts of the messages
    are listed with the datatype \<open>message\<close>.
\<close>

subsection \<open>JavaScript values\<close>

text \<open>
  \<open>JNum r\<close> is the number that \<^verbatim>\<open>String\<close> prints as \<open>r\<close>: \<^verbatim>\<open>"1"\<close>, \<^verbatim>\<open>"-5"\<close>,
  \<^verbatim>\<open>"12.5"\<close>, \<^verbatim>\<open>"1e+21"\<close>, \<^verbatim>\<open>"Infinity"\<close> (the value of the JSON text
  \<^verbatim>\<open>1e999\<close>). Zero and minus zero both print as \<^verbatim>\<open>"0"\<close>; they and \<^verbatim>\<open>NaN\<close>
  (which no JSON text denotes) are the falsy numbers.
\<close>

datatype jsval = JUndefined | JNull | JBool bool | JNum string | JStr string

text \<open>The operator \<^verbatim>\<open>!\<close>: true on the falsy values.\<close>

fun falsy :: "jsval \<Rightarrow> bool" where
  "falsy JUndefined = True"
| "falsy JNull = True"
| "falsy (JBool b) = (\<not> b)"
| "falsy (JNum r) = (r = ''0'' \<or> r = ''NaN'')"
| "falsy (JStr s) = (s = [])"

text \<open>\<^verbatim>\<open>s.startsWith(p)\<close>, on bytes.\<close>

definition startsWith :: "string \<Rightarrow> string \<Rightarrow> bool" where
  "startsWith p s = (take (length p) s = p)"

text \<open>
  The white space that \<^verbatim>\<open>parseInt\<close> skips (\<^verbatim>\<open>StrWhiteSpaceChar\<close>), in UTF-8: TAB, LF,
  VT, FF, CR, SP, U+00A0, U+1680, U+2000 to U+200A, U+2028, U+2029, U+202F, U+205F,
  U+3000 and U+FEFF.
\<close>

definition whiteSpaces :: "string list" where
  "whiteSpaces =
     [[CHR 0x09], [CHR 0x0A], [CHR 0x0B], [CHR 0x0C], [CHR 0x0D], [CHR 0x20],
      [CHR 0xC2, CHR 0xA0],
      [CHR 0xE1, CHR 0x9A, CHR 0x80],
      [CHR 0xE2, CHR 0x80, CHR 0x80], [CHR 0xE2, CHR 0x80, CHR 0x81],
      [CHR 0xE2, CHR 0x80, CHR 0x82], [CHR 0xE2, CHR 0x80, CHR 0x83],
      [CHR 0xE2, CHR 0x80, CHR 0x84], [CHR 0xE2, CHR 0x80, CHR 0x85],
      [CHR 0xE2, CHR 0x80, CHR 0x86], [CHR 0xE2, CHR 0x80, CHR 0x87],
      [CHR 0xE2, CHR 0x80, CHR 0x88], [CHR 0xE2, CHR 0x80, CHR 0x89],
      [CHR 0xE2, CHR 0x80, CHR 0x8A],
      [CHR 0xE2, CHR 0x80, CHR 0xA8], [CHR 0xE2, CHR 0x80, CHR 0xA9],
      [CHR 0xE2, CHR 0x80, CHR 0xAF],
      [CHR 0xE2, CHR 0x81, CHR 0x9F],
      [CHR 0xE3, CHR 0x80, CHR 0x80],
      [CHR 0xEF, CHR 0xBB, CHR 0xBF]]"

text \<open>The number of bytes of the white space character a string starts with, or 0.\<close>

definition wsLen :: "string \<Rightarrow> nat" where
  "wsLen s = (case find (\<lambda>w. startsWith w s) whiteSpaces of None \<Rightarrow> 0 | Some w \<Rightarrow> length w)"

fun skipWhiteSpace :: "string \<Rightarrow> string" where
  "skipWhiteSpace [] = []"
| "skipWhiteSpace (c # cs) =
     (if wsLen (c # cs) = 0 then c # cs else skipWhiteSpace (drop (wsLen (c # cs) - 1) cs))"

definition digitVal :: "nat \<Rightarrow> char \<Rightarrow> nat option" where
  "digitVal R c =
     (let k = (of_char c :: nat);
          v = (if 48 \<le> k \<and> k \<le> 57 then Some (k - 48)
               else if 97 \<le> k \<and> k \<le> 122 then Some (k - 87)
               else if 65 \<le> k \<and> k \<le> 90 then Some (k - 55)
               else None)
      in case v of None \<Rightarrow> None | Some d \<Rightarrow> if d < R then Some d else None)"

fun parseDigits :: "nat \<Rightarrow> nat \<Rightarrow> string \<Rightarrow> nat" where
  "parseDigits R acc [] = acc"
| "parseDigits R acc (c # cs) =
     (case digitVal R c of None \<Rightarrow> acc | Some d \<Rightarrow> parseDigits R (acc * R + d) cs)"

text \<open>
  The result of \<^verbatim>\<open>parseInt\<close> is a double: the integer read is rounded to 53
  significant bits, to the nearest and on a tie to the even one. (Past the largest
  double the code has \<^verbatim>\<open>Infinity\<close>, and past 20 significant decimal digits an engine
  may round the digits first; both happen only to magnitudes of 10^20 and more, which
  like the integer \<open>toDouble\<close> gives for them are outside the range of every key.)
\<close>

fun bitLength :: "nat \<Rightarrow> nat" where
  "bitLength n = (if n = 0 then 0 else Suc (bitLength (n div 2)))"

declare bitLength.simps [simp del]

definition toDouble :: "nat \<Rightarrow> nat" where
  "toDouble n =
     (let e = bitLength n - 53; q = n div 2 ^ e; r = n mod 2 ^ e
      in if 2 * r < 2 ^ e \<or> (2 * r = 2 ^ e \<and> even q) then q * 2 ^ e else (q + 1) * 2 ^ e)"

fun stripSign :: "string \<Rightarrow> int \<times> string" where
  "stripSign [] = (1, [])"
| "stripSign (c # cs) =
     (if c = CHR ''-'' then (- 1, cs) else if c = CHR ''+'' then (1, cs) else (1, c # cs))"

fun stripPrefix :: "string \<Rightarrow> nat \<times> string" where
  "stripPrefix (a # b # cs) =
     (if a = CHR ''0'' \<and> (b = CHR ''x'' \<or> b = CHR ''X'') then (16, cs) else (10, a # b # cs))"
| "stripPrefix cs = (10, cs)"

text \<open>
  \<^verbatim>\<open>parseInt(string)\<close> with no radix: leading white space is skipped, then an optional
  sign, then an optional \<^verbatim>\<open>0x\<close>/\<^verbatim>\<open>0X\<close> that selects radix 16, then the longest run of
  digits of the radix; what follows the digits is ignored; no digit at all is
  \<^verbatim>\<open>NaN\<close>, here \<open>None\<close>.
\<close>

definition parseIntStr :: "string \<Rightarrow> int option" where
  "parseIntStr s =
     (let (sign, s2) = stripSign (skipWhiteSpace s);
          (R, s3) = stripPrefix s2
      in case s3 of
           [] \<Rightarrow> None
         | c # cs \<Rightarrow> (case digitVal R c of
                        None \<Rightarrow> None
                      | Some d \<Rightarrow> Some (sign * int (toDouble (parseDigits R 0 s3)))))"

text \<open>
  \<^verbatim>\<open>parseInt(v)\<close> converts \<open>v\<close> to a string first: a number gives what \<^verbatim>\<open>String\<close>
  prints for it (so \<^verbatim>\<open>1e21\<close>, printed \<^verbatim>\<open>"1e+21"\<close>, reads as 1); \<^verbatim>\<open>"undefined"\<close>,
  \<^verbatim>\<open>"null"\<close>, \<^verbatim>\<open>"true"\<close> and \<^verbatim>\<open>"false"\<close> start with no digit.
\<close>

fun parseInt :: "jsval \<Rightarrow> int option" where
  "parseInt (JStr s) = parseIntStr s"
| "parseInt (JNum r) = parseIntStr r"
| "parseInt v = None"

subsection \<open>The store\<close>

text \<open>
  The four tables of the Prisma schema (the migrations under
  \<^verbatim>\<open>be-petnet/prisma/migrations\<close>). Of \<^verbatim>\<open>Usuario\<close> only the columns the two
  controllers read are kept.
\<close>

record usuario =
  usr_id :: int
  usr_nombre :: string
  usr_email :: string

record publicacion =
  pub_id :: int
  pub_foto :: string
  pub_estado :: string
  pub_usuarioId :: int

record mascota =
  mas_id :: int
  mas_nombre :: string
  mas_sexo :: string
  mas_tipo :: string
  mas_tamano :: string
  mas_descripcion :: string
  mas_publicacionId :: int

record solicitud =
  sol_id :: int
  sol_estado :: string
  sol_mensaje :: string
  sol_usuarioId :: int
  sol_publicacionId :: int

record db =
  usuarios :: "usuario list"
  publicaciones :: "publicacion list"
  mascotas :: "mascota list"
  solicitudes :: "solicitud list"
  seqPublicacion :: int
  seqMascota :: int
  seqSolicitud :: int

text \<open>The key of a new row: one more than the sequence and than every key in the table.\<close>

definition nextId :: "int \<Rightarrow> int list \<Rightarrow> int" where
  "nextId s ids = 1 + fold max ids s"

text \<open>
  The range of a key column. A lookup by a key outside it makes Prisma throw: each
  handler tests \<open>int64\<close> where it looks a key up, and answers from its \<^verbatim>\<open>catch\<close>.
\<close>

definition int64 :: "int \<Rightarrow> bool" where
  "int64 k = (- (2 ^ 63) \<le> k \<and> k < 2 ^ 63)"

text \<open>
  \<^verbatim>\<open>findUnique\<close>: the row with the key, or \<^verbatim>\<open>null\<close>; no row has a key outside
  the range of the column.
\<close>

definition findPublicacion :: "db \<Rightarrow> int \<Rightarrow> publicacion option" where
  "findPublicacion d i = (if int64 i then find (\<lambda>p. pub_id p = i) (publicaciones d) else None)"

definition findSolicitud :: "db \<Rightarrow> int \<Rightarrow> solicitud option" where
  "findSolicitud d i = (if int64 i then find (\<lambda>r. sol_id r = i) (solicitudes d) else None)"

definition findUsuario :: "db \<Rightarrow> int \<Rightarrow> usuario option" where
  "findUsuario d i = (if int64 i then find (\<lambda>u. usr_id u = i) (usuarios d) else None)"

text \<open>The unique index \<^verbatim>\<open>usuarioId_publicacionId\<close> of \<^verbatim>\<open>Solicitud\<close>.\<close>

definition findSolicitudDe :: "db \<Rightarrow> int \<Rightarrow> int \<Rightarrow> solicitud option" where
  "findSolicitudDe d u p =
     (if int64 u \<and> int64 p
      then find (\<lambda>r. sol_usuarioId r = u \<and> sol_publicacionId r = p) (solicitudes d)
      else None)"

text \<open>\<^verbatim>\<open>include: { Mascota: true }\<close>: the pets of a publication, in table order.\<close>

definition mascotasDe :: "db \<Rightarrow> int \<Rightarrow> mascota list" where
  "mascotasDe d p = filter (\<lambda>m. mas_publicacionId m = p) (mascotas d)"

subsection \<open>Responses\<close>

text \<open>
  The messages of the two controllers:
  \<^item> \<open>FaltanDatos\<close>: "Faltan datos obligatorios (publicacionId y mensaje son requeridos)";
  \<^item> \<open>PublicacionNoEncontrada\<close>: "Publicacion no encontrada";
  \<^item> \<open>PublicacionNoDisponible\<close>: "Esta publicacion no esta disponible para adopcion";
  \<^item> \<open>PropiaPublicacion\<close>: "No puedes solicitar adopcion de tu propia publicacion";
  \<^item> \<open>SolicitudDuplicada\<close>: "Ya enviaste una solicitud para esta publicacion";
  \<^item> \<open>SolicitudEnviada\<close>: "Solicitud enviada correctamente";
  \<^item> \<open>NoSePudoEnviar\<close>: "No se pudo enviar la solicitud, intente nuevamente";
  \<^item> \<open>IdSolicitudInvalido\<close>: "ID de solicitud invalido";
  \<^item> \<open>SolicitudNoEncontrada\<close>: "Solicitud no encontrada";
  \<^item> \<open>SinPermisoCancelar\<close>: "No tienes permiso para cancelar esta solicitud";
  \<^item> \<open>SoloPendientes\<close>: "Solo se pueden cancelar solicitudes pendientes";
  \<^item> \<open>SolicitudCancelada\<close>: "Solicitud cancelada correctamente";
  \<^item> \<open>NoSePudoCancelar\<close>: "No se pudo cancelar la solicitud, intente nuevamente";
  \<^item> \<open>ErrorInternoIdInvalido\<close>: "Error interno del servidor", with
    \<^verbatim>\<open>error: "ID de solicitud invalido"\<close>;
  \<^item> \<open>ErrorInterno\<close>: "Error interno del servidor", with the text of the exception;
  \<^item> \<open>EstadoNoValido\<close>: "Estado no valido";
  \<^item> \<open>NoAutorizadoModificar\<close>: "No autorizado para modificar esta solicitud";
  \<^item> \<open>NoModificarAprobada\<close>: "No se puede modificar una solicitud aprobada";
  \<^item> \<open>EstadoYaActualizado\<close>: "El estado ya estaba actualizado. No se envio correo.";
  \<^item> \<open>SolicitudActualizada e\<close>: "Solicitud actualizada a \<open>e\<close> y correo enviado al
    solicitante.";
  \<^item> the messages of the publication controller are listed with its validations.
\<close>

datatype message =
    FaltanDatos | PublicacionNoEncontrada | PublicacionNoDisponible | PropiaPublicacion
  | SolicitudDuplicada | SolicitudEnviada | NoSePudoEnviar
  | IdSolicitudInvalido | SolicitudNoEncontrada | SinPermisoCancelar | SoloPendientes
  | SolicitudCancelada | NoSePudoCancelar
  | ErrorInternoIdInvalido | ErrorInterno | EstadoNoValido | NoAutorizadoModificar
  | NoModificarAprobada | EstadoYaActualizado | SolicitudActualizada string
  | NombreObligatorio | TamanoInvalido | SexoInvalido | TipoInvalido
  | DescripcionObligatoria | EstadoInvalido | FotoObligatoria | FotoFormatoInvalido
  | FotoDemasiadoGrande | FotoSinLongitud
  | IdPublicacionInvalido | NoAutorizado | SinPermisoEditar | PublicacionEditada
  | NoSePudoEditar | PublicacionCreada | NoSePudoCrear | SinPermisoEliminar
  | PublicacionEliminada | ProblemaAlEliminar

datatype 'a response = Response (status: nat) (messages: "message list") (payload: "'a option")

text \<open>A call of \<^verbatim>\<open>enviarNotificacionCambioEstado(to, nombreSolicitante, nombreAnimal, nuevoEstado)\<close>.\<close>

record notificacion =
  n_to :: string
  n_nombreSolicitante :: string
  n_nombreAnimal :: string
  n_nuevoEstado :: string

record 'a outcome =
  commits :: "db list"
  mails :: "notificacion list"
  response :: "'a response"

text \<open>A handler that answers before it writes anything.\<close>

definition reply :: "nat \<Rightarrow> message \<Rightarrow> 'a outcome" where
  "reply st m = \<lparr>commits = [], mails = [], response = Response st [m] None\<rparr>"

text \<open>The store after a handler has run on store \<open>d\<close>.\<close>

definition finalDb :: "db \<Rightarrow> 'a outcome \<Rightarrow> db" where
  "finalDb d out = last (d # commits out)"

subsection \<open>The request controller\<close>

text \<open>
  \<^verbatim>\<open>prisma.solicitud.create\<close>: throws (\<open>None\<close>) when \<^verbatim>\<open>mensaje\<close> is not a string or
  when \<^verbatim>\<open>usuarioId\<close> is the key of no user (the foreign key
  \<^verbatim>\<open>Solicitud_usuarioId_fkey\<close>).
\<close>

definition crearSolicitud :: "db \<Rightarrow> int \<Rightarrow> int \<Rightarrow> jsval \<Rightarrow> (db \<times> solicitud) option" where
  "crearSolicitud d userId pubId mensaje =
     (case mensaje of
        JStr m \<Rightarrow>
          (case findUsuario d userId of
             None \<Rightarrow> None
           | Some u \<Rightarrow>
               (let i = nextId (seqSolicitud d) (map sol_id (solicitudes d));
                    nueva = \<lparr>sol_id = i, sol_estado = ''Pendiente'', sol_mensaje = m,
                             sol_usuarioId = userId, sol_publicacionId = pubId\<rparr>
                in Some (d\<lparr>solicitudes := solicitudes d @ [nueva], seqSolicitud := i\<rparr>, nueva)))
      | _ \<Rightarrow> None)"

definition createRequest :: "db \<Rightarrow> int \<Rightarrow> jsval \<Rightarrow> jsval \<Rightarrow> solicitud outcome" where
  "createRequest d userId publicacionId mensaje =
     (case parseInt publicacionId of
        None \<Rightarrow> reply 400 FaltanDatos
      | Some pubId \<Rightarrow>
          if falsy publicacionId \<or> falsy mensaje then reply 400 FaltanDatos
          else if \<not> int64 pubId then reply 500 NoSePudoEnviar
          else
            (case findPublicacion d pubId of
               None \<Rightarrow> reply 404 PublicacionNoEncontrada
             | Some publicacion \<Rightarrow>
                 if pub_estado publicacion \<noteq> ''disponible'' then reply 400 PublicacionNoDisponible
                 else if pub_usuarioId publicacion = userId then reply 400 PropiaPublicacion
                 else if \<not> int64 userId then reply 500 NoSePudoEnviar
                 else
                   (case findSolicitudDe d userId pubId of
                      Some existente \<Rightarrow> reply 400 SolicitudDuplicada
                    | None \<Rightarrow>
                        (case crearSolicitud d userId pubId mensaje of
                           None \<Rightarrow> reply 500 NoSePudoEnviar
                         | Some (d', nueva) \<Rightarrow>
                             \<lparr>commits = [d'], mails = [],
                              response = Response 201 [SolicitudEnviada] (Some nueva)\<rparr>))))"

definition deleteRequest :: "db \<Rightarrow> int \<Rightarrow> string \<Rightarrow> solicitud outcome" where
  "deleteRequest d userId idParam =
     (case parseIntStr idParam of
        None \<Rightarrow> reply 400 IdSolicitudInvalido
      | Some solicitudId \<Rightarrow>
          if \<not> int64 solicitudId then reply 500 NoSePudoCancelar
          else
          (case findSolicitud d solicitudId of
             None \<Rightarrow> reply 404 SolicitudNoEncontrada
           | Some s \<Rightarrow>
               if sol_usuarioId s \<noteq> userId then reply 403 SinPermisoCancelar
               else if sol_estado s \<noteq> ''Pendiente'' then reply 400 SoloPendientes
               else
                 \<lparr>commits = [d\<lparr>solicitudes := filter (\<lambda>r. sol_id r \<noteq> solicitudId) (solicitudes d)\<rparr>],
                  mails = [],
                  response = Response 200 [SolicitudCancelada] None\<rparr>))"

text \<open>\<^verbatim>\<open>estadosPermitidos.includes(nuevoEstado)\<close>: only a string is equal to a string.\<close>

definition estadosPermitidos :: "string list" where
  "estadosPermitidos = [''Aprobada'', ''Rechazada'', ''Pendiente'']"

fun estadoPermitido :: "jsval \<Rightarrow> string option" where
  "estadoPermitido (JStr e) = (if e \<in> set estadosPermitidos then Some e else None)"
| "estadoPermitido v = None"

text \<open>The three writes of an approval, each an awaited statement of its own.\<close>

definition setEstadoSolicitud :: "int \<Rightarrow> string \<Rightarrow> db \<Rightarrow> db" where
  "setEstadoSolicitud i e d =
     d\<lparr>solicitudes := map (\<lambda>r. if sol_id r = i then r\<lparr>sol_estado := e\<rparr> else r) (solicitudes d)\<rparr>"

definition setNoDisponible :: "int \<Rightarrow> db \<Rightarrow> db" where
  "setNoDisponible p d =
     d\<lparr>publicaciones :=
         map (\<lambda>q. if pub_id q = p then q\<lparr>pub_estado := ''no disponible''\<rparr> else q) (publicaciones d)\<rparr>"

definition rechazarOtrasPendientes :: "int \<Rightarrow> int \<Rightarrow> db \<Rightarrow> db" where
  "rechazarOtrasPendientes p i d =
     d\<lparr>solicitudes :=
         map (\<lambda>r. if sol_publicacionId r = p \<and> sol_id r \<noteq> i \<and> sol_estado r = ''Pendiente''
                  then r\<lparr>sol_estado := ''Rechazada''\<rparr> else r) (solicitudes d)\<rparr>"

text \<open>\<^verbatim>\<open>solicitud.publicacion.Mascota[0]?.nombre || "la mascota"\<close>.\<close>

definition nombreAnimal :: "db \<Rightarrow> int \<Rightarrow> string" where
  "nombreAnimal d p =
     (case mascotasDe d p of
        [] \<Rightarrow> ''la mascota''
      | m # ms \<Rightarrow> if mas_nombre m = [] then ''la mascota'' else mas_nombre m)"

text \<open>
  The mail and the answer that end both branches of \<^verbatim>\<open>actualizarEstadoSolicitud\<close>;
  \<open>cs\<close> are the writes already committed, \<open>u\<close> the requester read with the request
  (\<^verbatim>\<open>solicitud.usuario\<close>). The foreign keys give every request its requester and its
  publication; in a store where the requester is missing, \<^verbatim>\<open>solicitud.usuario.nombre\<close>
  is a read on \<^verbatim>\<open>null\<close>, which throws after the writes, and where the publication is
  missing \<^verbatim>\<open>solicitud.publicacion.usuarioId\<close> throws before them.
\<close>

definition notificar ::
  "bool \<Rightarrow> db \<Rightarrow> db list \<Rightarrow> solicitud \<Rightarrow> usuario option \<Rightarrow> string \<Rightarrow> solicitud outcome" where
  "notificar mailOk d cs s u e =
     (case u of
        None \<Rightarrow> \<lparr>commits = cs, mails = [], response = Response 500 [ErrorInterno] None\<rparr>
      | Some solicitante \<Rightarrow>
          (let n = \<lparr>n_to = usr_email solicitante, n_nombreSolicitante = usr_nombre solicitante,
                    n_nombreAnimal = nombreAnimal d (sol_publicacionId s), n_nuevoEstado = e\<rparr>
           in if mailOk
              then \<lparr>commits = cs, mails = [n],
                    response = Response 200 [SolicitudActualizada e] (Some (s\<lparr>sol_estado := e\<rparr>))\<rparr>
              else \<lparr>commits = cs, mails = [n], response = Response 500 [ErrorInterno] None\<rparr>))"

definition actualizarEstadoSolicitud ::
  "bool \<Rightarrow> db \<Rightarrow> int \<Rightarrow> string \<Rightarrow> jsval \<Rightarrow> solicitud outcome" where
  "actualizarEstadoSolicitud mailOk d userId idParam nuevoEstado =
     (case parseIntStr idParam of
        None \<Rightarrow> reply 500 ErrorInternoIdInvalido
      | Some solicitudId \<Rightarrow>
          (case estadoPermitido nuevoEstado of
             None \<Rightarrow> reply 400 EstadoNoValido
           | Some e \<Rightarrow>
               if \<not> int64 solicitudId then reply 500 ErrorInterno
               else
               (case findSolicitud d solicitudId of
                  None \<Rightarrow> reply 404 SolicitudNoEncontrada
                | Some s \<Rightarrow>
                    (case findPublicacion d (sol_publicacionId s) of
                       None \<Rightarrow> reply 500 ErrorInterno
                     | Some publicacion \<Rightarrow>
                         if pub_usuarioId publicacion \<noteq> userId then reply 403 NoAutorizadoModificar
                         else if sol_estado s = ''Aprobada'' then reply 400 NoModificarAprobada
                         else if sol_estado s = e
                         then \<lparr>commits = [], mails = [],
                               response = Response 200 [EstadoYaActualizado] (Some s)\<rparr>
                         else if e = ''Aprobada''
                         then
                           (let d1 = setEstadoSolicitud (sol_id s) e d;
                                d2 = setNoDisponible (sol_publicacionId s) d1;
                                d3 = rechazarOtrasPendientes (sol_publicacionId s) (sol_id s) d2
                            in notificar mailOk d [d1, d2, d3] s (findUsuario d (sol_usuarioId s)) e)
                         else
                           (let d1 = setEstadoSolicitud (sol_id s) e d
                            in notificar mailOk d [d1] s (findUsuario d (sol_usuarioId s)) e)))))"

subsection \<open>The publication controller\<close>

text \<open>
  The body of \<^verbatim>\<open>POST /publications\<close> and \<^verbatim>\<open>PUT /publications/:id\<close>; \<open>b_tamano\<close> is
  the field \<^verbatim>\<open>tamano\<close> written with n-tilde in the source.
\<close>

record body =
  b_nombre :: jsval
  b_tamano :: jsval
  b_sexo :: jsval
  b_tipo :: jsval
  b_descripcion :: jsval
  b_foto :: jsval
  b_estado :: jsval

text \<open>
  The validators of express-validator convert the value to a string first (undefined
  and null to the empty string, a boolean to \<^verbatim>\<open>true\<close> or \<^verbatim>\<open>false\<close>, a number to
  what \<^verbatim>\<open>String\<close> prints). \<open>notEmpty\<close> asks for a non-empty string, \<open>isIn\<close> for a
  member of the list; what \<^verbatim>\<open>String\<close> prints for a number is not empty and is none of
  the words listed in this controller.
\<close>

fun notEmpty :: "jsval \<Rightarrow> bool" where
  "notEmpty JUndefined = False"
| "notEmpty JNull = False"
| "notEmpty (JBool b) = True"
| "notEmpty (JNum n) = True"
| "notEmpty (JStr s) = (s \<noteq> [])"

fun isIn :: "string list \<Rightarrow> jsval \<Rightarrow> bool" where
  "isIn xs JUndefined = ([] \<in> set xs)"
| "isIn xs JNull = ([] \<in> set xs)"
| "isIn xs (JBool b) = ((if b then ''true'' else ''false'') \<in> set xs)"
| "isIn xs (JNum n) = False"
| "isIn xs (JStr s) = (s \<in> set xs)"

text \<open>
  The first custom validator of \<^verbatim>\<open>foto\<close>: the regular expression
  \<^verbatim>\<open>/^data:image\/(jpeg|jpg|png|gif|webp);base64,/\<close> tested on the value as a string.
\<close>

definition base64Regex :: "string \<Rightarrow> bool" where
  "base64Regex s =
     list_ex (\<lambda>t. startsWith (''data:image/'' @ t @ '';base64,'') s)
       [''jpeg'', ''jpg'', ''png'', ''gif'', ''webp'']"

fun fotoFormato :: "jsval \<Rightarrow> message list" where
  "fotoFormato (JStr s) = (if base64Regex s then [] else [FotoFormatoInvalido])"
| "fotoFormato v = [FotoFormatoInvalido]"

text \<open>
  \<^verbatim>\<open>value.length\<close> counts UTF-16 code units: one for each code point, and one more for
  each code point past U+FFFF. In UTF-8 every byte but a continuation byte
  (\<^verbatim>\<open>0x80\<close> to \<^verbatim>\<open>0xBF\<close>) starts a code point, and a first byte from \<^verbatim>\<open>0xF0\<close> on starts
  one past U+FFFF.
\<close>

definition utf16Length :: "string \<Rightarrow> nat" where
  "utf16Length s =
     length (filter (\<lambda>c. \<not> (128 \<le> (of_char c :: nat) \<and> (of_char c :: nat) < 192)) s)
     + length (filter (\<lambda>c. 240 \<le> (of_char c :: nat)) s)"

text \<open>
  The second one: \<^verbatim>\<open>value.length > 7000000\<close>; the read of \<^verbatim>\<open>length\<close> throws on
  undefined and null, and is undefined (so the comparison is false) on a boolean or a
  number.
\<close>

fun fotoTamano :: "jsval \<Rightarrow> message list" where
  "fotoTamano (JStr s) = (if utf16Length s > 7000000 then [FotoDemasiadoGrande] else [])"
| "fotoTamano JUndefined = [FotoSinLongitud]"
| "fotoTamano JNull = [FotoSinLongitud]"
| "fotoTamano v = []"

definition chk :: "bool \<Rightarrow> message \<Rightarrow> message list" where
  "chk ok m = (if ok then [] else [m])"

text \<open>\<^verbatim>\<open>.optional()\<close>: the chain is skipped when the field is undefined.\<close>

definition optional :: "jsval \<Rightarrow> message list \<Rightarrow> message list" where
  "optional v errs = (if v = JUndefined then [] else errs)"

definition tamanos :: "string list" where
  "tamanos = [''Chico'', ''Mediano'', ''Grande'']"

definition sexos :: "string list" where
  "sexos = [''Macho'', ''Hembra'']"

text \<open>The third word is \<^verbatim>\<open>Pajaro\<close> with a-acute, two bytes in UTF-8.\<close>

definition tipos :: "string list" where
  "tipos = [''Perro'', ''Gato'', ''P'' @ [CHR 0xC3, CHR 0xA1] @ ''jaro'', ''Conejo'']"

definition mascotaValidations :: "body \<Rightarrow> message list" where
  "mascotaValidations b =
     chk (notEmpty (b_nombre b)) NombreObligatorio
     @ chk (isIn tamanos (b_tamano b)) TamanoInvalido
     @ chk (isIn sexos (b_sexo b)) SexoInvalido
     @ chk (isIn tipos (b_tipo b)) TipoInvalido
     @ chk (notEmpty (b_descripcion b)) DescripcionObligatoria"

definition createPublicationValidations :: "body \<Rightarrow> message list" where
  "createPublicationValidations b =
     mascotaValidations b
     @ chk (notEmpty (b_foto b)) FotoObligatoria @ fotoFormato (b_foto b) @ fotoTamano (b_foto b)"

definition updatePublicationValidations :: "body \<Rightarrow> message list" where
  "updatePublicationValidations b =
     mascotaValidations b
     @ optional (b_estado b) (chk (isIn [''disponible'', ''adoptado''] (b_estado b)) EstadoInvalido)
     @ optional (b_foto b) (fotoFormato (b_foto b) @ fotoTamano (b_foto b))"

text \<open>A string column takes a string; anything else makes the Prisma write throw.\<close>

fun asString :: "jsval \<Rightarrow> string option" where
  "asString (JStr s) = Some s"
| "asString v = None"

definition mascotaData :: "body \<Rightarrow> int \<Rightarrow> int \<Rightarrow> mascota option" where
  "mascotaData b i p =
     Option.bind (asString (b_nombre b)) (\<lambda>n.
     Option.bind (asString (b_tamano b)) (\<lambda>t.
     Option.bind (asString (b_sexo b)) (\<lambda>s.
     Option.bind (asString (b_tipo b)) (\<lambda>ti.
     Option.bind (asString (b_descripcion b)) (\<lambda>de.
       Some \<lparr>mas_id = i, mas_nombre = n, mas_sexo = s, mas_tipo = ti, mas_tamano = t,
             mas_descripcion = de, mas_publicacionId = p\<rparr>)))))"

text \<open>
  The transaction of \<^verbatim>\<open>createPublication\<close>: the publication, then its pet; \<open>None\<close> when
  a write throws (the owner is the key of no user, a value is not a string), and then
  nothing is committed.
\<close>

definition crearPublicacionTx :: "db \<Rightarrow> int \<Rightarrow> body \<Rightarrow> (db \<times> publicacion \<times> mascota) option" where
  "crearPublicacionTx d userId b =
     Option.bind (asString (b_foto b)) (\<lambda>f.
     Option.bind (findUsuario d userId) (\<lambda>u.
       (let i = nextId (seqPublicacion d) (map pub_id (publicaciones d));
            nuevaPublicacion = \<lparr>pub_id = i, pub_foto = f, pub_estado = ''disponible'',
                                pub_usuarioId = userId\<rparr>;
            j = nextId (seqMascota d) (map mas_id (mascotas d))
        in Option.bind (mascotaData b j i) (\<lambda>nuevaMascota.
             Some (d\<lparr>publicaciones := publicaciones d @ [nuevaPublicacion],
                     mascotas := mascotas d @ [nuevaMascota],
                     seqPublicacion := i, seqMascota := j\<rparr>,
                   nuevaPublicacion, nuevaMascota)))))"

definition createPublication :: "db \<Rightarrow> int \<Rightarrow> body \<Rightarrow> (publicacion \<times> mascota) outcome" where
  "createPublication d userId b =
     (if createPublicationValidations b \<noteq> []
      then \<lparr>commits = [], mails = [], response = Response 400 (createPublicationValidations b) None\<rparr>
      else if userId = 0 then reply 401 NoAutorizado
      else
        (case crearPublicacionTx d userId b of
           None \<Rightarrow> reply 500 NoSePudoCrear
         | Some (d', nuevaPublicacion, nuevaMascota) \<Rightarrow>
             \<lparr>commits = [d'], mails = [],
              response = Response 201 [PublicacionCreada] (Some (nuevaPublicacion, nuevaMascota))\<rparr>))"

text \<open>
  \<^verbatim>\<open>if (foto) updateData.foto = foto\<close>: a falsy value leaves the column as it is (the
  inner \<open>None\<close>), a string is written, and any other value makes the write throw (the
  outer \<open>None\<close>).
\<close>

definition updateData :: "jsval \<Rightarrow> string option option" where
  "updateData v = (if falsy v then Some None else map_option Some (asString v))"

definition escribir :: "string option \<Rightarrow> string \<Rightarrow> string" where
  "escribir w old = (case w of None \<Rightarrow> old | Some new \<Rightarrow> new)"

text \<open>
  The transaction of \<^verbatim>\<open>updatePublication\<close>: the publication row (when there is
  something to write), then the pet \<^verbatim>\<open>Mascota[0]\<close>, updated when there is one and
  created otherwise.
\<close>

definition editarPublicacionTx ::
  "db \<Rightarrow> publicacion \<Rightarrow> body \<Rightarrow> (db \<times> publicacion \<times> mascota) option" where
  "editarPublicacionTx d publicacion b =
     Option.bind (updateData (b_foto b)) (\<lambda>wf.
     Option.bind (updateData (b_estado b)) (\<lambda>we.
       (let pubId = pub_id publicacion;
            upd = (\<lambda>q. q\<lparr>pub_foto := escribir wf (pub_foto q), pub_estado := escribir we (pub_estado q)\<rparr>);
            pubs = map (\<lambda>q. if pub_id q = pubId then upd q else q) (publicaciones d)
        in case mascotasDe d pubId of
             mascotaExistente # ms \<Rightarrow>
               Option.bind (mascotaData b (mas_id mascotaExistente) (mas_publicacionId mascotaExistente))
                 (\<lambda>m. Some (d\<lparr>publicaciones := pubs,
                               mascotas := map (\<lambda>x. if mas_id x = mas_id mascotaExistente then
                                   m\<lparr>mas_publicacionId := mas_publicacionId x\<rparr> else x) (mascotas d)\<rparr>,
                             upd publicacion, m))
           | [] \<Rightarrow>
               (let j = nextId (seqMascota d) (map mas_id (mascotas d))
                in Option.bind (mascotaData b j pubId)
                     (\<lambda>m. Some (d\<lparr>publicaciones := pubs, mascotas := mascotas d @ [m],
                                   seqMascota := j\<rparr>,
                                 upd publicacion, m))))))"

definition updatePublication ::
  "db \<Rightarrow> int \<Rightarrow> string \<Rightarrow> body \<Rightarrow> (publicacion \<times> mascota) outcome" where
  "updatePublication d userId idParam b =
     (if updatePublicationValidations b \<noteq> []
      then \<lparr>commits = [], mails = [], response = Response 400 (updatePublicationValidations b) None\<rparr>
      else
        (case parseIntStr idParam of
           None \<Rightarrow> reply 400 IdPublicacionInvalido
         | Some pubId \<Rightarrow>
             if userId = 0 then reply 401 NoAutorizado
             else if \<not> int64 pubId then reply 500 NoSePudoEditar
             else
               (case findPublicacion d pubId of
                  None \<Rightarrow> reply 404 PublicacionNoEncontrada
                | Some publicacion \<Rightarrow>
                    if pub_usuarioId publicacion \<noteq> userId then reply 403 SinPermisoEditar
                    else
                      (case editarPublicacionTx d publicacion b of
                         None \<Rightarrow> reply 500 NoSePudoEditar
                       | Some (d', updatedPublicacion, updatedMascota) \<Rightarrow>
                           \<lparr>commits = [d'], mails = [],
                            response = Response 200 [PublicacionEditada]
                                         (Some (updatedPublicacion, updatedMascota))\<rparr>))))"

text \<open>
  \<^verbatim>\<open>prisma.publicacion.delete\<close>: the pets and the requests of the publication go with
  it (\<^verbatim>\<open>ON DELETE CASCADE\<close> on both foreign keys).
\<close>

definition borrarPublicacion :: "int \<Rightarrow> db \<Rightarrow> db" where
  "borrarPublicacion p d =
     d\<lparr>publicaciones := filter (\<lambda>q. pub_id q \<noteq> p) (publicaciones d),
       mascotas := filter (\<lambda>m. mas_publicacionId m \<noteq> p) (mascotas d),
       solicitudes := filter (\<lambda>r. sol_publicacionId r \<noteq> p) (solicitudes d)\<rparr>"

definition deletePublication :: "db \<Rightarrow> int \<Rightarrow> string \<Rightarrow> (publicacion \<times> mascota) outcome" where
  "deletePublication d userId idParam =
     (case parseIntStr idParam of
        None \<Rightarrow> reply 400 IdPublicacionInvalido
      | Some pubId \<Rightarrow>
          if userId = 0 then reply 401 NoAutorizado
          else if \<not> int64 pubId then reply 500 ProblemaAlEliminar
          else
            (case findPublicacion d pubId of
               None \<Rightarrow> reply 404 PublicacionNoEncontrada
             | Some publicacion \<Rightarrow>
                 if pub_usuarioId publicacion \<noteq> userId then reply 403 SinPermisoEliminar
                 else
                   \<lparr>commits = [borrarPublicacion pubId d], mails = [],
                    response = Response 200 [PublicacionEliminada] None\<rparr>))"

subsection \<open>Sequences of core operations\<close>

datatype op =
    CreatePublication int body
  | UpdatePublication int string body
  | DeletePublication int string
  | CreateRequest int jsval jsval
  | DeleteRequest int string
  | ActualizarEstado bool int string jsval

fun exec :: "db \<Rightarrow> op \<Rightarrow> db" where
  "exec d (CreatePublication u b) = finalDb d (createPublication d u b)"
| "exec d (UpdatePublication u i b) = finalDb d (updatePublication d u i b)"
| "exec d (DeletePublication u i) = finalDb d (deletePublication d u i)"
| "exec d (CreateRequest u p m) = finalDb d (createRequest d u p m)"
| "exec d (DeleteRequest u i) = finalDb d (deleteRequest d u i)"
| "exec d (ActualizarEstado ok u i e) = finalDb d (actualizarEstadoSolicitud ok d u i e)"

definition run :: "db \<Rightarrow> op list \<Rightarrow> db" where
  "run d ops = foldl exec d ops"




text \<open>The store before any publication: registered users, and nothing else.\<close>

definition initialDb :: "usuario list \<Rightarrow> db" where
  "initialDb us =
     \<lparr>usuarios = us, publicaciones = [], mascotas = [], solicitudes = [],
      seqPublicacion = 0, seqMascota = 0, seqSolicitud = 0\<rparr>"



text \<open>An approval whose mail goes through.\<close>

abbreviation aprobar :: "db \<Rightarrow> int \<Rightarrow> string \<Rightarrow> solicitud outcome" where
  "aprobar d ownerId idParam \<equiv> actualizarEstadoSolicitud True d ownerId idParam (JStr ''Aprobada'')"

subsection \<open>Invariants of the store\<close>






subsection \<open>The error kinds of the interface\<close>

text \<open>
  The specification names the failures by kind. The handlers signal them by status and
  message: 500 is Internal, 404 NotFound, 403 Forbidden, 401 Unauthorized; status 400
  carries both ValidationError (missing or malformed input) and Conflict (a business
  rule: publication not available, own publication, duplicate request, request not
  pending, request already approved), told apart by the message only.
\<close>

datatype kind = Success | ValidationError | NotFound | Forbidden | Unauthorized | Conflict | Internal

fun isConflict :: "message \<Rightarrow> bool" where
  "isConflict PublicacionNoDisponible = True"
| "isConflict PropiaPublicacion = True"
| "isConflict SolicitudDuplicada = True"
| "isConflict SoloPendientes = True"
| "isConflict NoModificarAprobada = True"
| "isConflict m = False"

fun kindOf :: "'a response \<Rightarrow> kind" where
  "kindOf (Response st ms pl) =
     (if st = 500 then Internal
      else if st = 404 then NotFound
      else if st = 403 then Forbidden
      else if st = 401 then Unauthorized
      else if st = 400 then (if list_ex isConflict ms then Conflict else ValidationError)
      else Success)"

subsection \<open>Example stores\<close>

definition ana :: usuario where
  "ana = \<lparr>usr_id = 1, usr_nombre = ''Ana'', usr_email = ''ana@petnet''\<rparr>"

definition beto :: usuario where
  "beto = \<lparr>usr_id = 2, usr_nombre = ''Beto'', usr_email = ''beto@petnet''\<rparr>"

definition caro :: usuario where
  "caro = \<lparr>usr_id = 3, usr_nombre = ''Caro'', usr_email = ''caro@petnet''\<rparr>"

definition rex :: body where
  "rex = \<lparr>b_nombre = JStr ''Rex'', b_tamano = JStr ''Chico'', b_sexo = JStr ''Macho'',
          b_tipo = JStr ''Perro'', b_descripcion = JStr ''Manso'',
          b_foto = JStr ''data:image/png;base64,AAAA'', b_estado = JUndefined\<rparr>"

text \<open>Ana publishes Rex; Beto and Caro each ask for him.\<close>

definition dosPendientes :: db where
  "dosPendientes =
     \<lparr>usuarios = [ana, beto, caro],
      publicaciones = [\<lparr>pub_id = 1, pub_foto = ''data:image/png;base64,AAAA'',
                        pub_estado = ''disponible'', pub_usuarioId = 1\<rparr>],
      mascotas = [\<lparr>mas_id = 1, mas_nombre = ''Rex'', mas_sexo = ''Macho'', mas_tipo = ''Perro'',
                   mas_tamano = ''Chico'', mas_descripcion = ''Manso'', mas_publicacionId = 1\<rparr>],
      solicitudes = [\<lparr>sol_id = 1, sol_estado = ''Pendiente'', sol_mensaje = ''hola'',
                      sol_usuarioId = 2, sol_publicacionId = 1\<rparr>,
                     \<lparr>sol_id = 2, sol_estado = ''Pendiente'', sol_mensaje = ''yo'',
                      sol_usuarioId = 3, sol_publicacionId = 1\<rparr>],
      seqPublicacion = 1, seqMascota = 1, seqSolicitud = 2\<rparr>"

text \<open>The same store after Ana has approved Beto's request.\<close>

definition unaAprobada :: db where
  "unaAprobada =
     \<lparr>usuarios = [ana, beto, caro],
      publicaciones = [\<lparr>pub_id = 1, pub_foto = ''data:image/png;base64,AAAA'',
                        pub_estado = ''no disponible'', pub_usuarioId = 1\<rparr>],
      mascotas = [\<lparr>mas_id = 1, mas_nombre = ''Rex'', mas_sexo = ''Macho'', mas_tipo = ''Perro'',
                   mas_tamano = ''Chico'', mas_descripcion = ''Manso'', mas_publicacionId = 1\<rparr>],
      solicitudes = [\<lparr>sol_id = 1, sol_estado = ''Aprobada'', sol_mensaje = ''hola'',
                      sol_usuarioId = 2, sol_publicacionId = 1\<rparr>,
                     \<lparr>sol_id = 2, sol_estado = ''Rechazada'', sol_mensaje = ''yo'',
                      sol_usuarioId = 3, sol_publicacionId = 1\<rparr>],
      seqPublicacion = 1, seqMascota = 1, seqSolicitud = 2\<rparr>"

text \<open>The store before Caro asks: only Beto's request.\<close>

definition unPendiente :: db where
  "unPendiente =
     \<lparr>usuarios = [ana, beto, caro],
      publicaciones = [\<lparr>pub_id = 1, pub_foto = ''data:image/png;base64,AAAA'',
                        pub_estado = ''disponible'', pub_usuarioId = 1\<rparr>],
      mascotas = [\<lparr>mas_id = 1, mas_nombre = ''Rex'', mas_sexo = ''Macho'', mas_tipo = ''Perro'',
                   mas_tamano = ''Chico'', mas_descripcion = ''Manso'', mas_publicacionId = 1\<rparr>],
      solicitudes = [\<lparr>sol_id = 1, sol_estado = ''Pendiente'', sol_mensaje = ''hola'',
                      sol_usuarioId = 2, sol_publicacionId = 1\<rparr>],
      seqPublicacion = 1, seqMascota = 1, seqSolicitud = 1\<rparr>"

text \<open>The store right after Ana has published Rex.\<close>

definition soloPublicacion :: db where
  "soloPublicacion =
     \<lparr>usuarios = [ana, beto, caro],
      publicaciones = [\<lparr>pub_id = 1, pub_foto = ''data:image/png;base64,AAAA'',
                        pub_estado = ''disponible'', pub_usuarioId = 1\<rparr>],
      mascotas = [\<lparr>mas_id = 1, mas_nombre = ''Rex'', mas_sexo = ''Macho'', mas_tipo = ''Perro'',
                   mas_tamano = ''Chico'', mas_descripcion = ''Manso'', mas_publicacionId = 1\<rparr>],
      solicitudes = [],
      seqPublicacion = 1, seqMascota = 1, seqSolicitud = 0\<rparr>"

text \<open>Both requests approved.\<close>

definition dosAprobadas :: db where
  "dosAprobadas =
     \<lparr>usuarios = [ana, beto, caro],
      publicaciones = [\<lparr>pub_id = 1, pub_foto = ''data:image/png;base64,AAAA'',
                        pub_estado = ''no disponible'', pub_usuarioId = 1\<rparr>],
      mascotas = [\<lparr>mas_id = 1, mas_nombre = ''Rex'', mas_sexo = ''Macho'', mas_tipo = ''Perro'',
                   mas_tamano = ''Chico'', mas_descripcion = ''Manso'', mas_publicacionId = 1\<rparr>],
      solicitudes = [\<lparr>sol_id = 1, sol_estado = ''Aprobada'', sol_mensaje = ''hola'',
                      sol_usuarioId = 2, sol_publicacionId = 1\<rparr>,
                     \<lparr>sol_id = 2, sol_estado = ''Aprobada'', sol_mensaje = ''yo'',
                      sol_usuarioId = 3, sol_publicacionId = 1\<rparr>],
      seqPublicacion = 1, seqMascota = 1, seqSolicitud = 2\<rparr>"




section \<open>Properties\<close>

subsection \<open>Evaluation of the parsers and of the example stores\<close>

lemma bitLength_le: "n < 2 ^ k \<Longrightarrow> bitLength n \<le> k"
proof (induction k arbitrary: n)
  case 0
  then show ?case by (simp add: bitLength.simps)
next
  case (Suc k)
  show ?case
  proof (cases "n = 0")
    case True
    then show ?thesis by (simp add: bitLength.simps)
  next
    case False
    from Suc.prems have "n div 2 < 2 ^ k" by simp
    then have "bitLength (n div 2) \<le> k" by (rule Suc.IH)
    with False show ?thesis by (subst bitLength.simps) simp
  qed
qed

lemma toDouble_small: "n < 2 ^ 53 \<Longrightarrow> toDouble n = n"
  using bitLength_le[of n 53] by (simp add: toDouble_def)

lemmas parse_defs = parseIntStr_def wsLen_def whiteSpaces_def startsWith_def digitVal_def
  toDouble_small

lemmas find_defs = findPublicacion_def findSolicitud_def findUsuario_def findSolicitudDe_def
  int64_def

lemma estadoPermitido_Some:
  "estadoPermitido v = Some e \<longleftrightarrow> v = JStr e \<and> e \<in> {''Aprobada'', ''Rechazada'', ''Pendiente''}"
  by (cases v) (auto simp: estadosPermitidos_def)

lemma estadoPermitido_None:
  "estadoPermitido v = None \<longleftrightarrow> v \<notin> {JStr ''Pendiente'', JStr ''Aprobada'', JStr ''Rechazada''}"
  by (cases v) (auto simp: estadosPermitidos_def)

lemma parse_1: "parseIntStr ''1'' = Some 1"
  by (simp add: parse_defs)

lemma parse_2: "parseIntStr ''2'' = Some 2"
  by (simp add: parse_defs)

lemma parse_abc: "parseIntStr ''abc'' = None"
  by (simp add: parse_defs)

lemma parse_m3: "parseIntStr ''-3'' = Some (- 3)"
  by (simp add: parse_defs)

lemma parse_m5: "parseIntStr ''-5'' = Some (- 5)"
  by (simp add: parse_defs)

lemma parse_0: "parseIntStr ''0'' = Some 0"
  by (simp add: parse_defs)

lemma parse_nbsp_0: "parseIntStr [CHR 0xC2, CHR 0xA0, CHR ''0''] = Some 0"
  by (simp add: parse_defs)

lemma parse_nbsp_1: "parseIntStr [CHR 0xC2, CHR 0xA0, CHR ''1''] = Some 1"
  by (simp add: parse_defs)

lemma parse_1e21: "parseIntStr ''1e+21'' = Some 1"
  by (simp add: parse_defs)

lemma bitLength_eq: "2 ^ k \<le> n \<Longrightarrow> n < 2 ^ Suc k \<Longrightarrow> bitLength n = Suc k"
proof (induction k arbitrary: n)
  case 0
  then have "n = 1" by simp
  then show ?case by (simp add: bitLength.simps)
next
  case (Suc k)
  from Suc.prems have a: "2 ^ k \<le> n div 2" "n div 2 < 2 ^ Suc k" "n \<noteq> 0" by auto
  from Suc.IH[OF a(1,2)] a(3) show ?case by (subst bitLength.simps) simp
qed

lemma bitLength_grande: "bitLength 99999999999999999999 = 67"
  by (rule bitLength_eq[of 66, simplified]) simp_all

lemma toDouble_grande: "toDouble 99999999999999999999 = 100000000000000000000"
  by (simp add: toDouble_def bitLength_grande Let_def)

lemma parse_grande: "parseIntStr ''99999999999999999999'' = Some 100000000000000000000"
  by (simp add: parseIntStr_def wsLen_def whiteSpaces_def startsWith_def digitVal_def
      toDouble_grande)

lemma parse_m_grande: "parseIntStr ''-99999999999999999999'' = Some (- 100000000000000000000)"
  by (simp add: parseIntStr_def wsLen_def whiteSpaces_def startsWith_def digitVal_def
      toDouble_grande)

lemma grande_fuera: "\<not> int64 100000000000000000000" "\<not> int64 (- 100000000000000000000)"
  by (simp_all add: int64_def)

lemma find_sol_1_unaAprobada:
  "findSolicitud unaAprobada 1 =
     Some \<lparr>sol_id = 1, sol_estado = ''Aprobada'', sol_mensaje = ''hola'',
           sol_usuarioId = 2, sol_publicacionId = 1\<rparr>"
  by (simp add: findSolicitud_def int64_def unaAprobada_def)

lemma find_sol_2_unaAprobada:
  "findSolicitud unaAprobada 2 =
     Some \<lparr>sol_id = 2, sol_estado = ''Rechazada'', sol_mensaje = ''yo'',
           sol_usuarioId = 3, sol_publicacionId = 1\<rparr>"
  by (simp add: findSolicitud_def int64_def unaAprobada_def)

lemma find_pub_1_unaAprobada:
  "findPublicacion unaAprobada 1 =
     Some \<lparr>pub_id = 1, pub_foto = ''data:image/png;base64,AAAA'',
           pub_estado = ''no disponible'', pub_usuarioId = 1\<rparr>"
  by (simp add: findPublicacion_def int64_def unaAprobada_def)

lemma find_sol_1_dosPendientes:
  "findSolicitud dosPendientes 1 =
     Some \<lparr>sol_id = 1, sol_estado = ''Pendiente'', sol_mensaje = ''hola'',
           sol_usuarioId = 2, sol_publicacionId = 1\<rparr>"
  by (simp add: findSolicitud_def int64_def dosPendientes_def)

lemma find_sol_2_dosPendientes:
  "findSolicitud dosPendientes 2 =
     Some \<lparr>sol_id = 2, sol_estado = ''Pendiente'', sol_mensaje = ''yo'',
           sol_usuarioId = 3, sol_publicacionId = 1\<rparr>"
  by (simp add: findSolicitud_def int64_def dosPendientes_def)

lemma find_pub_1_dosPendientes:
  "findPublicacion dosPendientes 1 =
     Some \<lparr>pub_id = 1, pub_foto = ''data:image/png;base64,AAAA'',
           pub_estado = ''disponible'', pub_usuarioId = 1\<rparr>"
  by (simp add: findPublicacion_def int64_def dosPendientes_def)

lemma find_sol_m3_dosPendientes: "findSolicitud dosPendientes (- 3) = None"
  by (simp add: findSolicitud_def int64_def dosPendientes_def)

lemma find_pub_m5_dosPendientes: "findPublicacion dosPendientes (- 5) = None"
  by (simp add: findPublicacion_def int64_def dosPendientes_def)

lemma find_sol_0_dosPendientes: "findSolicitud dosPendientes 0 = None"
  by (simp add: findSolicitud_def int64_def dosPendientes_def)

lemma find_pub_0_dosPendientes: "findPublicacion dosPendientes 0 = None"
  by (simp add: findPublicacion_def int64_def dosPendientes_def)

lemma find_pub_1_unPendiente:
  "findPublicacion unPendiente 1 =
     Some \<lparr>pub_id = 1, pub_foto = ''data:image/png;base64,AAAA'',
           pub_estado = ''disponible'', pub_usuarioId = 1\<rparr>"
  by (simp add: findPublicacion_def int64_def unPendiente_def)

lemma find_sol_de_2_dosPendientes: "findSolicitudDe dosPendientes 2 1 \<noteq> None"
  by (simp add: findSolicitudDe_def int64_def dosPendientes_def)

lemma find_sol_de_3_unPendiente: "findSolicitudDe unPendiente 3 1 = None"
  by (simp add: findSolicitudDe_def int64_def unPendiente_def)

lemma find_usr_3_unPendiente: "findUsuario unPendiente 3 \<noteq> None"
  by (simp add: findUsuario_def int64_def unPendiente_def ana_def beto_def caro_def)

lemma find_usr_2_dosPendientes: "findUsuario dosPendientes 2 = Some beto"
  by (simp add: findUsuario_def int64_def dosPendientes_def ana_def beto_def)

lemma find_usr_3_dosPendientes: "findUsuario dosPendientes 3 = Some caro"
  by (simp add: findUsuario_def int64_def dosPendientes_def ana_def beto_def caro_def)

subsection \<open>Fresh keys\<close>

lemma fold_max_ge: "(s::int) \<le> fold max ids s"
  by (induction ids arbitrary: s) (auto intro: order_trans[OF max.cobounded2])

lemma fold_max_mem: "(x::int) \<in> set ids \<Longrightarrow> x \<le> fold max ids s"
proof (induction ids arbitrary: s)
  case Nil
  then show ?case by simp
next
  case (Cons a ids)
  show ?case
  proof (cases "x = a")
    case True
    have "a \<le> max a s" by simp
    also have "\<dots> \<le> fold max ids (max a s)" by (rule fold_max_ge)
    finally show ?thesis using True by simp
  next
    case False
    with Cons show ?thesis by simp
  qed
qed

lemma nextId_fresh: "nextId s ids \<notin> set ids"
proof
  assume "nextId s ids \<in> set ids"
  then have "nextId s ids \<le> fold max ids s" by (rule fold_max_mem)
  then show False by (simp add: nextId_def)
qed

lemma nextId_gt: "x \<in> set ids \<Longrightarrow> x < nextId s ids"
  using fold_max_mem[of x ids s] by (simp add: nextId_def)

subsection \<open>Rows found by key\<close>

lemma findPublicacion_id: "findPublicacion d n = Some p \<Longrightarrow> pub_id p = n"
  by (auto simp: findPublicacion_def find_Some_iff split: if_splits)

lemma findPublicacion_int64: "findPublicacion d n = Some p \<Longrightarrow> int64 n"
  by (simp add: findPublicacion_def split: if_splits)

lemma findSolicitud_int64: "findSolicitud d n = Some s \<Longrightarrow> int64 n"
  by (simp add: findSolicitud_def split: if_splits)

lemma findUsuario_int64: "findUsuario d n = Some u \<Longrightarrow> int64 n"
  by (simp add: findUsuario_def split: if_splits)

lemma findSolicitudDe_int64: "findSolicitudDe d u n = Some s \<Longrightarrow> int64 u"
  by (simp add: findSolicitudDe_def split: if_splits)


lemma findSolicitud_id: "findSolicitud d n = Some s \<Longrightarrow> sol_id s = n"
  by (auto simp: findSolicitud_def find_Some_iff split: if_splits)


lemma find_map_keep:
  "(\<And>x. P (f x) = P x) \<Longrightarrow> find P (map f xs) = map_option f (find P xs)"
  by (induction xs) auto






subsection \<open>What each operation does to the store\<close>













lemma aprobar_outcome:
  assumes "parseIntStr idParam = Some i"
    and "findSolicitud d i = Some s"
    and "sol_estado s \<noteq> ''Aprobada''"
    and "findPublicacion d (sol_publicacionId s) = Some p"
    and "pub_usuarioId p = ownerId"
    and "findUsuario d (sol_usuarioId s) = Some r"
  shows "commits (actualizarEstadoSolicitud mailOk d ownerId idParam (JStr ''Aprobada'')) =
          [d\<lparr>solicitudes :=
               map (\<lambda>x. if sol_id x = i then x\<lparr>sol_estado := ''Aprobada''\<rparr> else x) (solicitudes d)\<rparr>,
           d\<lparr>solicitudes :=
               map (\<lambda>x. if sol_id x = i then x\<lparr>sol_estado := ''Aprobada''\<rparr> else x) (solicitudes d),
             publicaciones :=
               map (\<lambda>q. if pub_id q = sol_publicacionId s then q\<lparr>pub_estado := ''no disponible''\<rparr>
                        else q) (publicaciones d)\<rparr>,
           d\<lparr>solicitudes :=
               map (\<lambda>x. if sol_id x = i then x\<lparr>sol_estado := ''Aprobada''\<rparr>
                        else if sol_publicacionId x = sol_publicacionId s \<and> sol_estado x = ''Pendiente''
                        then x\<lparr>sol_estado := ''Rechazada''\<rparr> else x) (solicitudes d),
             publicaciones :=
               map (\<lambda>q. if pub_id q = sol_publicacionId s then q\<lparr>pub_estado := ''no disponible''\<rparr>
                        else q) (publicaciones d)\<rparr>]
      \<and> mails (actualizarEstadoSolicitud mailOk d ownerId idParam (JStr ''Aprobada'')) =
          [\<lparr>n_to = usr_email r, n_nombreSolicitante = usr_nombre r,
            n_nombreAnimal = nombreAnimal d (sol_publicacionId s), n_nuevoEstado = ''Aprobada''\<rparr>]
      \<and> response (actualizarEstadoSolicitud mailOk d ownerId idParam (JStr ''Aprobada'')) =
          (if mailOk
           then Response 200 [SolicitudActualizada ''Aprobada''] (Some (s\<lparr>sol_estado := ''Aprobada''\<rparr>))
           else Response 500 [ErrorInterno] None)"
proof -
  have i: "sol_id s = i" using assms(2) by (rule findSolicitud_id)
  have e: "estadoPermitido (JStr ''Aprobada'') = Some ''Aprobada''"
    by (simp add: estadosPermitidos_def)
  have m: "map (\<lambda>x. if sol_publicacionId x = sol_publicacionId s \<and> sol_id x \<noteq> i
                       \<and> sol_estado x = ''Pendiente''
                    then x\<lparr>sol_estado := ''Rechazada''\<rparr> else x)
             (map (\<lambda>x. if sol_id x = i then x\<lparr>sol_estado := ''Aprobada''\<rparr> else x) (solicitudes d))
         = map (\<lambda>x. if sol_id x = i then x\<lparr>sol_estado := ''Aprobada''\<rparr>
                        else if sol_publicacionId x = sol_publicacionId s \<and> sol_estado x = ''Pendiente''
                        then x\<lparr>sol_estado := ''Rechazada''\<rparr> else x) (solicitudes d)"
    by (simp add: comp_def cong: if_cong)
  show ?thesis
    using assms(1-6) e i findSolicitud_int64[OF assms(2)]
    by (simp add: actualizarEstadoSolicitud_def notificar_def Let_def setEstadoSolicitud_def
        setNoDisponible_def rechazarOtrasPendientes_def m)
qed

lemma aprobar_final:
  assumes "parseIntStr idParam = Some i"
    and "findSolicitud d i = Some s"
    and "sol_estado s \<noteq> ''Aprobada''"
    and "findPublicacion d (sol_publicacionId s) = Some p"
    and "pub_usuarioId p = ownerId"
    and "findUsuario d (sol_usuarioId s) = Some r"
  shows "finalDb d (aprobar d ownerId idParam) =
           d\<lparr>solicitudes :=
               map (\<lambda>x. if sol_id x = i then x\<lparr>sol_estado := ''Aprobada''\<rparr>
                        else if sol_publicacionId x = sol_publicacionId s \<and> sol_estado x = ''Pendiente''
                        then x\<lparr>sol_estado := ''Rechazada''\<rparr> else x) (solicitudes d),
             publicaciones :=
               map (\<lambda>q. if pub_id q = sol_publicacionId s then q\<lparr>pub_estado := ''no disponible''\<rparr>
                        else q) (publicaciones d)\<rparr>"
    and "response (aprobar d ownerId idParam) =
           Response 200 [SolicitudActualizada ''Aprobada''] (Some (s\<lparr>sol_estado := ''Aprobada''\<rparr>))"
  using aprobar_outcome[OF assms, of True] by (simp_all add: finalDb_def)


subsection \<open>The example, step by step\<close>

lemma rex_valid_create: "createPublicationValidations rex = []"
  by (simp add: createPublicationValidations_def mascotaValidations_def rex_def chk_def
      tamanos_def sexos_def tipos_def base64Regex_def startsWith_def utf16Length_def)


lemma step1: "exec (initialDb [ana, beto, caro]) (CreatePublication 1 rex) = soloPublicacion"
  by (simp add: createPublication_def rex_valid_create crearPublicacionTx_def finalDb_def
      initialDb_def findUsuario_def int64_def ana_def beto_def caro_def nextId_def mascotaData_def
      soloPublicacion_def Let_def, simp add: rex_def)

lemma step2: "exec soloPublicacion (CreateRequest 2 (JNum ''1'') (JStr ''hola'')) = unPendiente"
  by (simp add: createRequest_def crearSolicitud_def finalDb_def findPublicacion_def parse_1
      findSolicitudDe_def findUsuario_def int64_def nextId_def soloPublicacion_def
      unPendiente_def ana_def beto_def caro_def Let_def)

lemma step3: "exec unPendiente (CreateRequest 3 (JStr ''1'') (JStr ''yo'')) = dosPendientes"
  by (simp add: createRequest_def crearSolicitud_def finalDb_def findPublicacion_def parse_1
      findSolicitudDe_def findUsuario_def int64_def nextId_def dosPendientes_def
      unPendiente_def ana_def beto_def caro_def Let_def)

lemma aprobar_1:
  "actualizarEstadoSolicitud True dosPendientes 1 ''1'' (JStr ''Aprobada'') =
     \<lparr>commits =
        [dosPendientes\<lparr>solicitudes :=
           [\<lparr>sol_id = 1, sol_estado = ''Aprobada'', sol_mensaje = ''hola'',
             sol_usuarioId = 2, sol_publicacionId = 1\<rparr>,
            \<lparr>sol_id = 2, sol_estado = ''Pendiente'', sol_mensaje = ''yo'',
             sol_usuarioId = 3, sol_publicacionId = 1\<rparr>]\<rparr>,
         dosPendientes\<lparr>solicitudes :=
           [\<lparr>sol_id = 1, sol_estado = ''Aprobada'', sol_mensaje = ''hola'',
             sol_usuarioId = 2, sol_publicacionId = 1\<rparr>,
            \<lparr>sol_id = 2, sol_estado = ''Pendiente'', sol_mensaje = ''yo'',
             sol_usuarioId = 3, sol_publicacionId = 1\<rparr>],
           publicaciones :=
           [\<lparr>pub_id = 1, pub_foto = ''data:image/png;base64,AAAA'',
             pub_estado = ''no disponible'', pub_usuarioId = 1\<rparr>]\<rparr>,
         unaAprobada],
      mails = [\<lparr>n_to = ''beto@petnet'', n_nombreSolicitante = ''Beto'',
                n_nombreAnimal = ''Rex'', n_nuevoEstado = ''Aprobada''\<rparr>],
      response = Response 200 [SolicitudActualizada ''Aprobada'']
        (Some \<lparr>sol_id = 1, sol_estado = ''Aprobada'', sol_mensaje = ''hola'',
               sol_usuarioId = 2, sol_publicacionId = 1\<rparr>)\<rparr>"
  by (simp add: actualizarEstadoSolicitud_def parse_1 find_sol_1_dosPendientes
      find_pub_1_dosPendientes estadosPermitidos_def notificar_def Let_def int64_def)
     (simp add: setEstadoSolicitud_def setNoDisponible_def rechazarOtrasPendientes_def
      findUsuario_def int64_def nombreAnimal_def mascotasDe_def dosPendientes_def unaAprobada_def
      ana_def beto_def caro_def)

lemma aprobar_2:
  "actualizarEstadoSolicitud True unaAprobada 1 ''2'' (JStr ''Aprobada'') =
     \<lparr>commits = [dosAprobadas, dosAprobadas, dosAprobadas],
      mails = [\<lparr>n_to = ''caro@petnet'', n_nombreSolicitante = ''Caro'',
                n_nombreAnimal = ''Rex'', n_nuevoEstado = ''Aprobada''\<rparr>],
      response = Response 200 [SolicitudActualizada ''Aprobada'']
        (Some \<lparr>sol_id = 2, sol_estado = ''Aprobada'', sol_mensaje = ''yo'',
               sol_usuarioId = 3, sol_publicacionId = 1\<rparr>)\<rparr>"
  by (simp add: actualizarEstadoSolicitud_def parse_2 find_sol_2_unaAprobada
      find_pub_1_unaAprobada estadosPermitidos_def notificar_def Let_def int64_def)
     (simp add: setEstadoSolicitud_def setNoDisponible_def rechazarOtrasPendientes_def
      findUsuario_def int64_def nombreAnimal_def mascotasDe_def dosAprobadas_def unaAprobada_def
      ana_def beto_def caro_def)

lemma step4: "exec dosPendientes (ActualizarEstado True 1 ''1'' (JStr ''Aprobada'')) = unaAprobada"
  by (simp add: aprobar_1 finalDb_def)

lemma step5: "exec unaAprobada (ActualizarEstado True 1 ''2'' (JStr ''Aprobada'')) = dosAprobadas"
  by (simp add: aprobar_2 finalDb_def)







subsection \<open>Invariants, step by step\<close>





















subsection \<open>The stores committed along a run\<close>

















subsection \<open>Availability and approved requests along a run\<close>





subsection \<open>The effect of an approval\<close>

text \<open>
  Claim C2, as stated, fails. \<^verbatim>\<open>actualizarEstadoSolicitud\<close> opens no transaction: its
  three writes are three awaited statements, each committed by itself. On the store
  \<open>dosPendientes\<close> the approval of request 1 commits three times, and the first commit
  is a store in which request 1 is approved while the publication is still
  \<^verbatim>\<open>disponible\<close> and request 2 still pending.
\<close>

theorem approval_not_one_transaction_counterexample:
  "length (commits (actualizarEstadoSolicitud True dosPendientes 1 ''1'' (JStr ''Aprobada''))) = 3
   \<and> map sol_estado (solicitudes
        (commits (actualizarEstadoSolicitud True dosPendientes 1 ''1'' (JStr ''Aprobada'')) ! 0))
       = [''Aprobada'', ''Pendiente'']
   \<and> map pub_estado (publicaciones
        (commits (actualizarEstadoSolicitud True dosPendientes 1 ''1'' (JStr ''Aprobada'')) ! 0))
       = [''disponible'']"
  by (simp add: aprobar_1) (simp add: dosPendientes_def)

text \<open>
  Claim C2, amended. For a request that is not approved, the approval by the owner of
  the publication performs, as three writes committed one after the other and with no
  transaction around them, exactly these changes: (a) the request becomes
  \<^verbatim>\<open>Aprobada\<close>; (b) its publication becomes \<^verbatim>\<open>no disponible\<close>; (c) every other
  request of the same publication that is \<^verbatim>\<open>Pendiente\<close> becomes \<^verbatim>\<open>Rechazada\<close>, and
  the requests that are not pending, like every other row, are left as they are. After
  the third write exactly one mail is handed to the mail service, addressed to the
  requester of the approved request, and none to the requesters rejected in (c); when
  the mail service fails the three writes stay committed and the answer is 500.
\<close>

theorem approval_effect:
  assumes "parseIntStr idParam = Some i"
    and "findSolicitud d i = Some s"
    and "sol_estado s \<noteq> ''Aprobada''"
    and "findPublicacion d (sol_publicacionId s) = Some p"
    and "pub_usuarioId p = ownerId"
    and "findUsuario d (sol_usuarioId s) = Some r"
  shows "commits (actualizarEstadoSolicitud mailOk d ownerId idParam (JStr ''Aprobada'')) =
          [d\<lparr>solicitudes :=
               map (\<lambda>x. if sol_id x = i then x\<lparr>sol_estado := ''Aprobada''\<rparr> else x) (solicitudes d)\<rparr>,
           d\<lparr>solicitudes :=
               map (\<lambda>x. if sol_id x = i then x\<lparr>sol_estado := ''Aprobada''\<rparr> else x) (solicitudes d),
             publicaciones :=
               map (\<lambda>q. if pub_id q = sol_publicacionId s then q\<lparr>pub_estado := ''no disponible''\<rparr>
                        else q) (publicaciones d)\<rparr>,
           d\<lparr>solicitudes :=
               map (\<lambda>x. if sol_id x = i then x\<lparr>sol_estado := ''Aprobada''\<rparr>
                        else if sol_publicacionId x = sol_publicacionId s \<and> sol_estado x = ''Pendiente''
                        then x\<lparr>sol_estado := ''Rechazada''\<rparr> else x) (solicitudes d),
             publicaciones :=
               map (\<lambda>q. if pub_id q = sol_publicacionId s then q\<lparr>pub_estado := ''no disponible''\<rparr>
                        else q) (publicaciones d)\<rparr>]
      \<and> mails (actualizarEstadoSolicitud mailOk d ownerId idParam (JStr ''Aprobada'')) =
          [\<lparr>n_to = usr_email r, n_nombreSolicitante = usr_nombre r,
            n_nombreAnimal = nombreAnimal d (sol_publicacionId s), n_nuevoEstado = ''Aprobada''\<rparr>]
      \<and> response (actualizarEstadoSolicitud mailOk d ownerId idParam (JStr ''Aprobada'')) =
          (if mailOk
           then Response 200 [SolicitudActualizada ''Aprobada''] (Some (s\<lparr>sol_estado := ''Aprobada''\<rparr>))
           else Response 500 [ErrorInterno] None)"
  using assms by (rule aprobar_outcome)

theorem approval_effect_witness:
  "parseIntStr ''1'' = Some 1
   \<and> findSolicitud dosPendientes 1 =
       Some \<lparr>sol_id = 1, sol_estado = ''Pendiente'', sol_mensaje = ''hola'',
             sol_usuarioId = 2, sol_publicacionId = 1\<rparr>
   \<and> findPublicacion dosPendientes 1 =
       Some \<lparr>pub_id = 1, pub_foto = ''data:image/png;base64,AAAA'',
             pub_estado = ''disponible'', pub_usuarioId = 1\<rparr>
   \<and> findUsuario dosPendientes 2 = Some beto
   \<and> map (\<lambda>c. (map sol_estado (solicitudes c), map pub_estado (publicaciones c)))
        (commits (actualizarEstadoSolicitud False dosPendientes 1 ''1'' (JStr ''Aprobada''))) =
       [([''Aprobada'', ''Pendiente''], [''disponible'']),
        ([''Aprobada'', ''Pendiente''], [''no disponible'']),
        ([''Aprobada'', ''Rechazada''], [''no disponible''])]
   \<and> map n_to (mails (actualizarEstadoSolicitud False dosPendientes 1 ''1'' (JStr ''Aprobada'')))
       = [''beto@petnet'']
   \<and> response (actualizarEstadoSolicitud False dosPendientes 1 ''1'' (JStr ''Aprobada''))
       = Response 500 [ErrorInterno] None"
proof -
  let ?s = "\<lparr>sol_id = 1, sol_estado = ''Pendiente'', sol_mensaje = ''hola'',
             sol_usuarioId = 2, sol_publicacionId = 1\<rparr>"
  have h1: "sol_estado ?s \<noteq> ''Aprobada''" by simp
  have h2: "findPublicacion dosPendientes (sol_publicacionId ?s) =
       Some \<lparr>pub_id = 1, pub_foto = ''data:image/png;base64,AAAA'',
             pub_estado = ''disponible'', pub_usuarioId = 1\<rparr>"
    using find_pub_1_dosPendientes by simp
  have h3: "findUsuario dosPendientes (sol_usuarioId ?s) = Some beto"
    using find_usr_2_dosPendientes by simp
  have c: "map (\<lambda>c. (map sol_estado (solicitudes c), map pub_estado (publicaciones c)))
        (commits (actualizarEstadoSolicitud False dosPendientes 1 ''1'' (JStr ''Aprobada''))) =
       [([''Aprobada'', ''Pendiente''], [''disponible'']),
        ([''Aprobada'', ''Pendiente''], [''no disponible'']),
        ([''Aprobada'', ''Rechazada''], [''no disponible''])]"
    using approval_effect[OF parse_1 find_sol_1_dosPendientes h1 h2 _ h3, of 1 False]
    by (simp add: dosPendientes_def)
  have m: "map n_to (mails (actualizarEstadoSolicitud False dosPendientes 1 ''1'' (JStr ''Aprobada'')))
       = [''beto@petnet'']"
    using approval_effect[OF parse_1 find_sol_1_dosPendientes h1 h2 _ h3, of 1 False]
    by (simp add: beto_def)
  have r: "response (actualizarEstadoSolicitud False dosPendientes 1 ''1'' (JStr ''Aprobada''))
       = Response 500 [ErrorInterno] None"
    using approval_effect[OF parse_1 find_sol_1_dosPendientes h1 h2 _ h3, of 1 False]
    by simp
  from parse_1 find_sol_1_dosPendientes find_pub_1_dosPendientes find_usr_2_dosPendientes c m r
  show ?thesis by simp
qed

subsection \<open>Two approvals on one publication\<close>

text \<open>
  Claim C3, as stated, fails. One of the orders in which two approvals can arrive is one
  after the other. On the store \<open>dosPendientes\<close> the approval of request 1 is answered
  200 and leaves request 2 rejected and the publication \<^verbatim>\<open>no disponible\<close>; the
  approval of request 2 that follows is answered 200 as well, and both requests of the
  publication end \<^verbatim>\<open>Aprobada\<close>.
\<close>

theorem double_approval_counterexample:
  "response (actualizarEstadoSolicitud True dosPendientes 1 ''1'' (JStr ''Aprobada'')) =
     Response 200 [SolicitudActualizada ''Aprobada'']
       (Some \<lparr>sol_id = 1, sol_estado = ''Aprobada'', sol_mensaje = ''hola'',
              sol_usuarioId = 2, sol_publicacionId = 1\<rparr>)
   \<and> finalDb dosPendientes (actualizarEstadoSolicitud True dosPendientes 1 ''1'' (JStr ''Aprobada''))
       = unaAprobada
   \<and> response (actualizarEstadoSolicitud True unaAprobada 1 ''2'' (JStr ''Aprobada'')) =
     Response 200 [SolicitudActualizada ''Aprobada'']
       (Some \<lparr>sol_id = 2, sol_estado = ''Aprobada'', sol_mensaje = ''yo'',
              sol_usuarioId = 3, sol_publicacionId = 1\<rparr>)
   \<and> map sol_id (solicitudes (finalDb unaAprobada
        (actualizarEstadoSolicitud True unaAprobada 1 ''2'' (JStr ''Aprobada'')))) = [1, 2]
   \<and> map sol_publicacionId (solicitudes (finalDb unaAprobada
        (actualizarEstadoSolicitud True unaAprobada 1 ''2'' (JStr ''Aprobada'')))) = [1, 1]
   \<and> map sol_estado (solicitudes (finalDb unaAprobada
        (actualizarEstadoSolicitud True unaAprobada 1 ''2'' (JStr ''Aprobada''))))
       = [''Aprobada'', ''Aprobada'']"
  by (simp add: aprobar_1 aprobar_2 finalDb_def) (simp add: dosAprobadas_def)

text \<open>
  Claim C3, amended. The handler opens no transaction and does not look at the state
  of the publication. When the owner's approvals of two distinct pending requests R1 and
  R2 of one publication run one after the other, the first is answered 200 and leaves
  R1 \<^verbatim>\<open>Aprobada\<close>, R2 \<^verbatim>\<open>Rechazada\<close> and the publication \<^verbatim>\<open>no disponible\<close>; the
  second finds exactly that, is answered 200 too, and leaves R2 \<^verbatim>\<open>Aprobada\<close> with R1
  still \<^verbatim>\<open>Aprobada\<close>. Nothing is stated about executions that interleave.
\<close>

theorem serial_approvals:
  assumes "parseIntStr id1 = Some i1" and "parseIntStr id2 = Some i2" and "i1 \<noteq> i2"
    and "findSolicitud d i1 = Some s1" and "findSolicitud d i2 = Some s2"
    and "sol_estado s1 = ''Pendiente''" and "sol_estado s2 = ''Pendiente''"
    and "sol_publicacionId s2 = sol_publicacionId s1"
    and "findPublicacion d (sol_publicacionId s1) = Some p" and "pub_usuarioId p = ownerId"
    and "findUsuario d (sol_usuarioId s1) = Some r1" and "findUsuario d (sol_usuarioId s2) = Some r2"
  shows "response (aprobar d ownerId id1) =
           Response 200 [SolicitudActualizada ''Aprobada''] (Some (s1\<lparr>sol_estado := ''Aprobada''\<rparr>))
       \<and> findSolicitud (finalDb d (aprobar d ownerId id1)) i1 = Some (s1\<lparr>sol_estado := ''Aprobada''\<rparr>)
       \<and> findSolicitud (finalDb d (aprobar d ownerId id1)) i2 = Some (s2\<lparr>sol_estado := ''Rechazada''\<rparr>)
       \<and> findPublicacion (finalDb d (aprobar d ownerId id1)) (sol_publicacionId s1)
           = Some (p\<lparr>pub_estado := ''no disponible''\<rparr>)
       \<and> response (aprobar (finalDb d (aprobar d ownerId id1)) ownerId id2) =
           Response 200 [SolicitudActualizada ''Aprobada''] (Some (s2\<lparr>sol_estado := ''Aprobada''\<rparr>))
       \<and> findSolicitud (finalDb (finalDb d (aprobar d ownerId id1))
            (aprobar (finalDb d (aprobar d ownerId id1)) ownerId id2)) i1
           = Some (s1\<lparr>sol_estado := ''Aprobada''\<rparr>)
       \<and> findSolicitud (finalDb (finalDb d (aprobar d ownerId id1))
            (aprobar (finalDb d (aprobar d ownerId id1)) ownerId id2)) i2
           = Some (s2\<lparr>sol_estado := ''Aprobada''\<rparr>)"
proof -
  let ?P = "sol_publicacionId s1"
  let ?d1 = "finalDb d (aprobar d ownerId id1)"
  let ?d2 = "finalDb ?d1 (aprobar ?d1 ownerId id2)"
  have k1: "sol_id s1 = i1" and k2: "sol_id s2 = i2"
    using assms(4,5) by (auto dest: findSolicitud_id)
  have kp: "pub_id p = ?P" using assms(9) by (rule findPublicacion_id)
  have r1: "int64 i1" and r2: "int64 i2" and rp: "int64 ?P"
    using assms(4,5,9) by (auto dest: findSolicitud_int64 findPublicacion_int64)
  have n1: "sol_estado s1 \<noteq> ''Aprobada''" using assms(6) by simp
  note f1 = aprobar_final[OF assms(1) assms(4) n1 assms(9) assms(10) assms(11)]
  have a1: "findSolicitud ?d1 i1 = Some (s1\<lparr>sol_estado := ''Aprobada''\<rparr>)"
    unfolding f1(1) using assms(4) k1 r1
    by (simp add: findSolicitud_def find_map_keep)
  have a2: "findSolicitud ?d1 i2 = Some (s2\<lparr>sol_estado := ''Rechazada''\<rparr>)"
    unfolding f1(1) using assms(5) assms(3) assms(7) assms(8) k2 r2
    by (simp add: findSolicitud_def find_map_keep)
  have ap: "findPublicacion ?d1 ?P = Some (p\<lparr>pub_estado := ''no disponible''\<rparr>)"
    unfolding f1(1) using assms(9) kp rp
    by (simp add: findPublicacion_def find_map_keep)
  have au: "findUsuario ?d1 (sol_usuarioId s2) = Some r2"
    unfolding f1(1) using assms(12) by (simp add: findUsuario_def split: if_splits)
  have n2: "sol_estado (s2\<lparr>sol_estado := ''Rechazada''\<rparr>) \<noteq> ''Aprobada''" by simp
  have ap': "findPublicacion ?d1 (sol_publicacionId (s2\<lparr>sol_estado := ''Rechazada''\<rparr>))
      = Some (p\<lparr>pub_estado := ''no disponible''\<rparr>)"
    using ap assms(8) by simp
  have po: "pub_usuarioId (p\<lparr>pub_estado := ''no disponible''\<rparr>) = ownerId"
    using assms(10) by simp
  have au': "findUsuario ?d1 (sol_usuarioId (s2\<lparr>sol_estado := ''Rechazada''\<rparr>)) = Some r2"
    using au by simp
  note f2 = aprobar_final[OF assms(2) a2 n2 ap' po au']
  have b1: "findSolicitud ?d2 i1 = Some (s1\<lparr>sol_estado := ''Aprobada''\<rparr>)"
    unfolding f2(1) using a1 assms(3) k1 r1
    by (simp add: findSolicitud_def find_map_keep)
  have b2: "findSolicitud ?d2 i2 = Some (s2\<lparr>sol_estado := ''Aprobada''\<rparr>)"
    unfolding f2(1) using a2 k2 r2
    by (simp add: findSolicitud_def find_map_keep)
  from f1(2) a1 a2 ap f2(2) b1 b2 show ?thesis by simp
qed

theorem serial_approvals_witness:
  "parseIntStr ''1'' = Some 1 \<and> parseIntStr ''2'' = Some 2 \<and> (1::int) \<noteq> 2
   \<and> findSolicitud dosPendientes 1 =
       Some \<lparr>sol_id = 1, sol_estado = ''Pendiente'', sol_mensaje = ''hola'',
             sol_usuarioId = 2, sol_publicacionId = 1\<rparr>
   \<and> findSolicitud dosPendientes 2 =
       Some \<lparr>sol_id = 2, sol_estado = ''Pendiente'', sol_mensaje = ''yo'',
             sol_usuarioId = 3, sol_publicacionId = 1\<rparr>
   \<and> findPublicacion dosPendientes 1 =
       Some \<lparr>pub_id = 1, pub_foto = ''data:image/png;base64,AAAA'',
             pub_estado = ''disponible'', pub_usuarioId = 1\<rparr>
   \<and> findUsuario dosPendientes 2 = Some beto \<and> findUsuario dosPendientes 3 = Some caro
   \<and> findSolicitud (finalDb dosPendientes (aprobar dosPendientes 1 ''1'')) 2 =
       Some \<lparr>sol_id = 2, sol_estado = ''Rechazada'', sol_mensaje = ''yo'',
             sol_usuarioId = 3, sol_publicacionId = 1\<rparr>
   \<and> findPublicacion (finalDb dosPendientes (aprobar dosPendientes 1 ''1'')) 1 =
       Some \<lparr>pub_id = 1, pub_foto = ''data:image/png;base64,AAAA'',
             pub_estado = ''no disponible'', pub_usuarioId = 1\<rparr>
   \<and> response (aprobar (finalDb dosPendientes (aprobar dosPendientes 1 ''1'')) 1 ''2'') =
       Response 200 [SolicitudActualizada ''Aprobada'']
         (Some \<lparr>sol_id = 2, sol_estado = ''Aprobada'', sol_mensaje = ''yo'',
                sol_usuarioId = 3, sol_publicacionId = 1\<rparr>)
   \<and> findSolicitud (finalDb (finalDb dosPendientes (aprobar dosPendientes 1 ''1''))
        (aprobar (finalDb dosPendientes (aprobar dosPendientes 1 ''1'')) 1 ''2'')) 1 =
       Some \<lparr>sol_id = 1, sol_estado = ''Aprobada'', sol_mensaje = ''hola'',
             sol_usuarioId = 2, sol_publicacionId = 1\<rparr>
   \<and> findSolicitud (finalDb (finalDb dosPendientes (aprobar dosPendientes 1 ''1''))
        (aprobar (finalDb dosPendientes (aprobar dosPendientes 1 ''1'')) 1 ''2'')) 2 =
       Some \<lparr>sol_id = 2, sol_estado = ''Aprobada'', sol_mensaje = ''yo'',
             sol_usuarioId = 3, sol_publicacionId = 1\<rparr>"
proof -
  let ?s1 = "\<lparr>sol_id = 1, sol_estado = ''Pendiente'', sol_mensaje = ''hola'',
             sol_usuarioId = 2, sol_publicacionId = 1\<rparr>"
  let ?s2 = "\<lparr>sol_id = 2, sol_estado = ''Pendiente'', sol_mensaje = ''yo'',
             sol_usuarioId = 3, sol_publicacionId = 1\<rparr>"
  have ne: "(1::int) \<noteq> 2" by simp
  have e1: "sol_estado ?s1 = ''Pendiente''" and e2: "sol_estado ?s2 = ''Pendiente''" by simp_all
  have sp: "sol_publicacionId ?s2 = sol_publicacionId ?s1" by simp
  have fp: "findPublicacion dosPendientes (sol_publicacionId ?s1) =
       Some \<lparr>pub_id = 1, pub_foto = ''data:image/png;base64,AAAA'',
             pub_estado = ''disponible'', pub_usuarioId = 1\<rparr>"
    using find_pub_1_dosPendientes by simp
  have ow: "pub_usuarioId \<lparr>pub_id = 1, pub_foto = ''data:image/png;base64,AAAA'',
             pub_estado = ''disponible'', pub_usuarioId = 1\<rparr> = 1" by simp
  have u1: "findUsuario dosPendientes (sol_usuarioId ?s1) = Some beto"
    using find_usr_2_dosPendientes by simp
  have u2: "findUsuario dosPendientes (sol_usuarioId ?s2) = Some caro"
    using find_usr_3_dosPendientes by simp
  from serial_approvals[OF parse_1 parse_2 ne find_sol_1_dosPendientes find_sol_2_dosPendientes
      e1 e2 sp fp ow u1 u2]
    parse_1 parse_2 find_sol_1_dosPendientes find_sol_2_dosPendientes find_pub_1_dosPendientes
    find_usr_2_dosPendientes find_usr_3_dosPendientes
  show ?thesis by simp
qed

subsection \<open>An approved request is final\<close>

text \<open>
  Claim C4. When the request is approved, \<^verbatim>\<open>actualizarEstadoSolicitud\<close> called by the
  owner of the publication answers 400 "No se puede modificar una solicitud aprobada"
  (a Conflict) for each of the three target states, the approved one included; it
  commits nothing and sends no mail, so the request, its publication and the other
  requests stay as they are.
\<close>

theorem approved_is_terminal:
  assumes "parseIntStr idParam = Some i"
    and "findSolicitud d i = Some s"
    and "sol_estado s = ''Aprobada''"
    and "findPublicacion d (sol_publicacionId s) = Some p"
    and "pub_usuarioId p = ownerId"
    and "nuevoEstado \<in> {JStr ''Pendiente'', JStr ''Aprobada'', JStr ''Rechazada''}"
  shows "actualizarEstadoSolicitud mailOk d ownerId idParam nuevoEstado =
           \<lparr>commits = [], mails = [], response = Response 400 [NoModificarAprobada] None\<rparr>
         \<and> finalDb d (actualizarEstadoSolicitud mailOk d ownerId idParam nuevoEstado) = d
         \<and> kindOf (response (actualizarEstadoSolicitud mailOk d ownerId idParam nuevoEstado)) = Conflict"
proof -
  from assms(6) obtain e where e: "estadoPermitido nuevoEstado = Some e"
    by (auto simp: estadosPermitidos_def)
  have "actualizarEstadoSolicitud mailOk d ownerId idParam nuevoEstado = reply 400 NoModificarAprobada"
    using assms(1-5) e findSolicitud_int64[OF assms(2)]
    by (simp add: actualizarEstadoSolicitud_def)
  then show ?thesis by (simp add: reply_def finalDb_def)
qed

theorem approved_is_terminal_witness:
  "parseIntStr ''1'' = Some 1
   \<and> findSolicitud unaAprobada 1 =
       Some \<lparr>sol_id = 1, sol_estado = ''Aprobada'', sol_mensaje = ''hola'',
             sol_usuarioId = 2, sol_publicacionId = 1\<rparr>
   \<and> findPublicacion unaAprobada 1 =
       Some \<lparr>pub_id = 1, pub_foto = ''data:image/png;base64,AAAA'',
             pub_estado = ''no disponible'', pub_usuarioId = 1\<rparr>
   \<and> actualizarEstadoSolicitud True unaAprobada 1 ''1'' (JStr ''Pendiente'') =
       \<lparr>commits = [], mails = [], response = Response 400 [NoModificarAprobada] None\<rparr>
   \<and> actualizarEstadoSolicitud True unaAprobada 1 ''1'' (JStr ''Aprobada'') =
       \<lparr>commits = [], mails = [], response = Response 400 [NoModificarAprobada] None\<rparr>
   \<and> actualizarEstadoSolicitud True unaAprobada 1 ''1'' (JStr ''Rechazada'') =
       \<lparr>commits = [], mails = [], response = Response 400 [NoModificarAprobada] None\<rparr>"
proof -
  have h: "findPublicacion unaAprobada
             (sol_publicacionId \<lparr>sol_id = 1, sol_estado = ''Aprobada'', sol_mensaje = ''hola'',
                                 sol_usuarioId = 2, sol_publicacionId = 1\<rparr>) =
           Some \<lparr>pub_id = 1, pub_foto = ''data:image/png;base64,AAAA'',
                 pub_estado = ''no disponible'', pub_usuarioId = 1\<rparr>"
    using find_pub_1_unaAprobada by simp
  have a: "actualizarEstadoSolicitud True unaAprobada 1 ''1'' (JStr ''Pendiente'') =
           \<lparr>commits = [], mails = [], response = Response 400 [NoModificarAprobada] None\<rparr>"
    using approved_is_terminal[OF parse_1 find_sol_1_unaAprobada _ h, of 1 "JStr ''Pendiente''" True]
    by simp
  have b: "actualizarEstadoSolicitud True unaAprobada 1 ''1'' (JStr ''Aprobada'') =
           \<lparr>commits = [], mails = [], response = Response 400 [NoModificarAprobada] None\<rparr>"
    using approved_is_terminal[OF parse_1 find_sol_1_unaAprobada _ h, of 1 "JStr ''Aprobada''" True]
    by simp
  have c: "actualizarEstadoSolicitud True unaAprobada 1 ''1'' (JStr ''Rechazada'') =
           \<lparr>commits = [], mails = [], response = Response 400 [NoModificarAprobada] None\<rparr>"
    using approved_is_terminal[OF parse_1 find_sol_1_unaAprobada _ h, of 1 "JStr ''Rechazada''" True]
    by simp
  from parse_1 find_sol_1_unaAprobada find_pub_1_unaAprobada a b c show ?thesis by simp
qed

subsection \<open>The checks of a new request, in order\<close>

text \<open>
  Claim C5, as stated, fails. The publication id \<^verbatim>\<open>-5\<close> is truthy and parses to an
  integer, so it passes the first check although it is not positive; the answer is 404
  "Publicacion no encontrada" (NotFound), not a ValidationError.
\<close>

theorem negative_publication_id_counterexample:
  "parseInt (JNum ''-5'') = Some (- 5)
   \<and> createRequest dosPendientes 3 (JNum ''-5'') (JStr ''hola'') =
       \<lparr>commits = [], mails = [], response = Response 404 [PublicacionNoEncontrada] None\<rparr>
   \<and> kindOf (response (createRequest dosPendientes 3 (JNum ''-5'') (JStr ''hola''))) = NotFound
   \<and> kindOf (response (createRequest dosPendientes 3 (JNum ''-5'') (JStr ''hola''))) \<noteq> ValidationError"
  by (simp add: createRequest_def parse_m5 find_pub_m5_dosPendientes reply_def int64_def)

text \<open>
  Claim C5, amended. \<^verbatim>\<open>createRequest\<close> checks in this order, and the first failure
  decides the answer:
  \<^item> (1) \<^verbatim>\<open>publicacionId\<close> is truthy, \<^verbatim>\<open>parseInt(publicacionId)\<close> is not \<^verbatim>\<open>NaN\<close> and
    \<^verbatim>\<open>mensaje\<close> is truthy, else 400 "Faltan datos obligatorios" (ValidationError). The
    sign of the integer is not tested: a truthy id that parses to zero (the string
    \<^verbatim>\<open>"0"\<close>, the number \<^verbatim>\<open>0.5\<close>) or to a negative integer passes; the number \<^verbatim>\<open>0\<close>
    is falsy and fails;
  \<^item> the integer is in the range of a key, else the lookup of the publication throws:
    500 "No se pudo enviar la solicitud" (Internal);
  \<^item> (2) the publication exists, else 404 (NotFound);
  \<^item> (3) its state is \<^verbatim>\<open>disponible\<close>, else 400 (Conflict);
  \<^item> (4) its owner is not the requester, else 400 (Conflict);
  \<^item> the key of the requester is in the range of a key, else the lookup of the
    requester's request throws: 500 (Internal);
  \<^item> (5) the requester has no request for the publication, else 400 (Conflict).

  When all hold, the message is a string and the requester is a stored user, one request
  with state \<^verbatim>\<open>Pendiente\<close> and a fresh key is appended to the table and returned with
  status 201; when the message is not a string or the requester is not a stored user the
  insertion throws: 500 (Internal). Every answer but 201 commits nothing.
\<close>

theorem create_request_checks:
  "(falsy publicacionId \<or> parseInt publicacionId = None \<or> falsy mensaje \<longrightarrow>
      createRequest d u publicacionId mensaje =
        \<lparr>commits = [], mails = [], response = Response 400 [FaltanDatos] None\<rparr>
      \<and> kindOf (response (createRequest d u publicacionId mensaje)) = ValidationError)
   \<and> (\<not> falsy publicacionId \<and> \<not> falsy mensaje \<and> parseInt publicacionId = Some n
        \<and> \<not> int64 n \<longrightarrow>
      createRequest d u publicacionId mensaje =
        \<lparr>commits = [], mails = [], response = Response 500 [NoSePudoEnviar] None\<rparr>
      \<and> kindOf (response (createRequest d u publicacionId mensaje)) = Internal)
   \<and> (\<not> falsy publicacionId \<and> \<not> falsy mensaje \<and> parseInt publicacionId = Some n
        \<and> int64 n \<and> findPublicacion d n = None \<longrightarrow>
      createRequest d u publicacionId mensaje =
        \<lparr>commits = [], mails = [], response = Response 404 [PublicacionNoEncontrada] None\<rparr>
      \<and> kindOf (response (createRequest d u publicacionId mensaje)) = NotFound)
   \<and> (\<not> falsy publicacionId \<and> \<not> falsy mensaje \<and> parseInt publicacionId = Some n
        \<and> findPublicacion d n = Some p \<and> pub_estado p \<noteq> ''disponible'' \<longrightarrow>
      createRequest d u publicacionId mensaje =
        \<lparr>commits = [], mails = [], response = Response 400 [PublicacionNoDisponible] None\<rparr>
      \<and> kindOf (response (createRequest d u publicacionId mensaje)) = Conflict)
   \<and> (\<not> falsy publicacionId \<and> \<not> falsy mensaje \<and> parseInt publicacionId = Some n
        \<and> findPublicacion d n = Some p \<and> pub_estado p = ''disponible''
        \<and> pub_usuarioId p = u \<longrightarrow>
      createRequest d u publicacionId mensaje =
        \<lparr>commits = [], mails = [], response = Response 400 [PropiaPublicacion] None\<rparr>
      \<and> kindOf (response (createRequest d u publicacionId mensaje)) = Conflict)
   \<and> (\<not> falsy publicacionId \<and> \<not> falsy mensaje \<and> parseInt publicacionId = Some n
        \<and> findPublicacion d n = Some p \<and> pub_estado p = ''disponible''
        \<and> pub_usuarioId p \<noteq> u \<and> \<not> int64 u \<longrightarrow>
      createRequest d u publicacionId mensaje =
        \<lparr>commits = [], mails = [], response = Response 500 [NoSePudoEnviar] None\<rparr>
      \<and> kindOf (response (createRequest d u publicacionId mensaje)) = Internal)
   \<and> (\<not> falsy publicacionId \<and> \<not> falsy mensaje \<and> parseInt publicacionId = Some n
        \<and> findPublicacion d n = Some p \<and> pub_estado p = ''disponible''
        \<and> pub_usuarioId p \<noteq> u \<and> findSolicitudDe d u n \<noteq> None \<longrightarrow>
      createRequest d u publicacionId mensaje =
        \<lparr>commits = [], mails = [], response = Response 400 [SolicitudDuplicada] None\<rparr>
      \<and> kindOf (response (createRequest d u publicacionId mensaje)) = Conflict)
   \<and> (\<not> falsy publicacionId \<and> \<not> falsy mensaje \<and> parseInt publicacionId = Some n
        \<and> findPublicacion d n = Some p \<and> pub_estado p = ''disponible''
        \<and> pub_usuarioId p \<noteq> u \<and> findSolicitudDe d u n = None
        \<and> mensaje = JStr m \<and> findUsuario d u \<noteq> None \<longrightarrow>
      (\<exists>i. i \<notin> set (map sol_id (solicitudes d))
        \<and> createRequest d u publicacionId mensaje =
            \<lparr>commits =
               [d\<lparr>solicitudes := solicitudes d @
                     [\<lparr>sol_id = i, sol_estado = ''Pendiente'', sol_mensaje = m,
                       sol_usuarioId = u, sol_publicacionId = n\<rparr>],
                   seqSolicitud := i\<rparr>],
             mails = [],
             response = Response 201 [SolicitudEnviada]
               (Some \<lparr>sol_id = i, sol_estado = ''Pendiente'', sol_mensaje = m,
                      sol_usuarioId = u, sol_publicacionId = n\<rparr>)\<rparr>))
   \<and> (\<not> falsy publicacionId \<and> \<not> falsy mensaje \<and> parseInt publicacionId = Some n
        \<and> findPublicacion d n = Some p \<and> pub_estado p = ''disponible''
        \<and> pub_usuarioId p \<noteq> u \<and> int64 u \<and> findSolicitudDe d u n = None
        \<and> ((\<forall>t. mensaje \<noteq> JStr t) \<or> findUsuario d u = None) \<longrightarrow>
      createRequest d u publicacionId mensaje =
        \<lparr>commits = [], mails = [], response = Response 500 [NoSePudoEnviar] None\<rparr>
      \<and> kindOf (response (createRequest d u publicacionId mensaje)) = Internal)"
proof (intro conjI impI)
  assume "falsy publicacionId \<or> parseInt publicacionId = None \<or> falsy mensaje"
  then have "createRequest d u publicacionId mensaje = reply 400 FaltanDatos"
    by (auto simp: createRequest_def split: option.splits)
  then show "createRequest d u publicacionId mensaje =
        \<lparr>commits = [], mails = [], response = Response 400 [FaltanDatos] None\<rparr>"
    and "kindOf (response (createRequest d u publicacionId mensaje)) = ValidationError"
    by (simp_all add: reply_def)
next
  assume "\<not> falsy publicacionId \<and> \<not> falsy mensaje \<and> parseInt publicacionId = Some n
        \<and> \<not> int64 n"
  then have "createRequest d u publicacionId mensaje = reply 500 NoSePudoEnviar"
    by (simp add: createRequest_def)
  then show "createRequest d u publicacionId mensaje =
        \<lparr>commits = [], mails = [], response = Response 500 [NoSePudoEnviar] None\<rparr>"
    and "kindOf (response (createRequest d u publicacionId mensaje)) = Internal"
    by (simp_all add: reply_def)
next
  assume "\<not> falsy publicacionId \<and> \<not> falsy mensaje \<and> parseInt publicacionId = Some n
        \<and> int64 n \<and> findPublicacion d n = None"
  then have "createRequest d u publicacionId mensaje = reply 404 PublicacionNoEncontrada"
    by (simp add: createRequest_def)
  then show "createRequest d u publicacionId mensaje =
        \<lparr>commits = [], mails = [], response = Response 404 [PublicacionNoEncontrada] None\<rparr>"
    and "kindOf (response (createRequest d u publicacionId mensaje)) = NotFound"
    by (simp_all add: reply_def)
next
  assume a: "\<not> falsy publicacionId \<and> \<not> falsy mensaje \<and> parseInt publicacionId = Some n
        \<and> findPublicacion d n = Some p \<and> pub_estado p \<noteq> ''disponible''"
  then have "int64 n" by (auto dest: findPublicacion_int64)
  with a have "createRequest d u publicacionId mensaje = reply 400 PublicacionNoDisponible"
    by (simp add: createRequest_def)
  then show "createRequest d u publicacionId mensaje =
        \<lparr>commits = [], mails = [], response = Response 400 [PublicacionNoDisponible] None\<rparr>"
    and "kindOf (response (createRequest d u publicacionId mensaje)) = Conflict"
    by (simp_all add: reply_def)
next
  assume a: "\<not> falsy publicacionId \<and> \<not> falsy mensaje \<and> parseInt publicacionId = Some n
        \<and> findPublicacion d n = Some p \<and> pub_estado p = ''disponible''
        \<and> pub_usuarioId p = u"
  then have "int64 n" by (auto dest: findPublicacion_int64)
  with a have "createRequest d u publicacionId mensaje = reply 400 PropiaPublicacion"
    by (simp add: createRequest_def)
  then show "createRequest d u publicacionId mensaje =
        \<lparr>commits = [], mails = [], response = Response 400 [PropiaPublicacion] None\<rparr>"
    and "kindOf (response (createRequest d u publicacionId mensaje)) = Conflict"
    by (simp_all add: reply_def)
next
  assume a: "\<not> falsy publicacionId \<and> \<not> falsy mensaje \<and> parseInt publicacionId = Some n
        \<and> findPublicacion d n = Some p \<and> pub_estado p = ''disponible''
        \<and> pub_usuarioId p \<noteq> u \<and> \<not> int64 u"
  then have "int64 n" by (auto dest: findPublicacion_int64)
  with a have "createRequest d u publicacionId mensaje = reply 500 NoSePudoEnviar"
    by (simp add: createRequest_def)
  then show "createRequest d u publicacionId mensaje =
        \<lparr>commits = [], mails = [], response = Response 500 [NoSePudoEnviar] None\<rparr>"
    and "kindOf (response (createRequest d u publicacionId mensaje)) = Internal"
    by (simp_all add: reply_def)
next
  assume a: "\<not> falsy publicacionId \<and> \<not> falsy mensaje \<and> parseInt publicacionId = Some n
        \<and> findPublicacion d n = Some p \<and> pub_estado p = ''disponible''
        \<and> pub_usuarioId p \<noteq> u \<and> findSolicitudDe d u n \<noteq> None"
  then have "int64 n" "int64 u" by (auto dest: findPublicacion_int64 findSolicitudDe_int64)
  with a have "createRequest d u publicacionId mensaje = reply 400 SolicitudDuplicada"
    by (auto simp: createRequest_def)
  then show "createRequest d u publicacionId mensaje =
        \<lparr>commits = [], mails = [], response = Response 400 [SolicitudDuplicada] None\<rparr>"
    and "kindOf (response (createRequest d u publicacionId mensaje)) = Conflict"
    by (simp_all add: reply_def)
next
  assume a: "\<not> falsy publicacionId \<and> \<not> falsy mensaje \<and> parseInt publicacionId = Some n
        \<and> findPublicacion d n = Some p \<and> pub_estado p = ''disponible''
        \<and> pub_usuarioId p \<noteq> u \<and> findSolicitudDe d u n = None
        \<and> mensaje = JStr m \<and> findUsuario d u \<noteq> None"
  then have r: "int64 n" "int64 u" by (auto dest: findPublicacion_int64 findUsuario_int64)
  let ?i = "nextId (seqSolicitud d) (map sol_id (solicitudes d))"
  have "?i \<notin> set (map sol_id (solicitudes d))" by (rule nextId_fresh)
  moreover have "createRequest d u publicacionId mensaje =
            \<lparr>commits =
               [d\<lparr>solicitudes := solicitudes d @
                     [\<lparr>sol_id = ?i, sol_estado = ''Pendiente'', sol_mensaje = m,
                       sol_usuarioId = u, sol_publicacionId = n\<rparr>],
                   seqSolicitud := ?i\<rparr>],
             mails = [],
             response = Response 201 [SolicitudEnviada]
               (Some \<lparr>sol_id = ?i, sol_estado = ''Pendiente'', sol_mensaje = m,
                      sol_usuarioId = u, sol_publicacionId = n\<rparr>)\<rparr>"
    using a r by (auto simp: createRequest_def crearSolicitud_def Let_def)
  ultimately show "\<exists>i. i \<notin> set (map sol_id (solicitudes d))
        \<and> createRequest d u publicacionId mensaje =
            \<lparr>commits =
               [d\<lparr>solicitudes := solicitudes d @
                     [\<lparr>sol_id = i, sol_estado = ''Pendiente'', sol_mensaje = m,
                       sol_usuarioId = u, sol_publicacionId = n\<rparr>],
                   seqSolicitud := i\<rparr>],
             mails = [],
             response = Response 201 [SolicitudEnviada]
               (Some \<lparr>sol_id = i, sol_estado = ''Pendiente'', sol_mensaje = m,
                      sol_usuarioId = u, sol_publicacionId = n\<rparr>)\<rparr>"
    by blast
next
  assume a: "\<not> falsy publicacionId \<and> \<not> falsy mensaje \<and> parseInt publicacionId = Some n
        \<and> findPublicacion d n = Some p \<and> pub_estado p = ''disponible''
        \<and> pub_usuarioId p \<noteq> u \<and> int64 u \<and> findSolicitudDe d u n = None
        \<and> ((\<forall>t. mensaje \<noteq> JStr t) \<or> findUsuario d u = None)"
  then have r: "int64 n" by (auto dest: findPublicacion_int64)
  from a have "crearSolicitud d u n mensaje = None"
    by (auto simp: crearSolicitud_def split: jsval.splits)
  with a r have "createRequest d u publicacionId mensaje = reply 500 NoSePudoEnviar"
    by (simp add: createRequest_def)
  then show "createRequest d u publicacionId mensaje =
        \<lparr>commits = [], mails = [], response = Response 500 [NoSePudoEnviar] None\<rparr>"
    and "kindOf (response (createRequest d u publicacionId mensaje)) = Internal"
    by (simp_all add: reply_def)
qed

theorem create_request_checks_witness:
  "falsy JUndefined
   \<and> createRequest dosPendientes 3 JUndefined (JStr ''hola'') =
        \<lparr>commits = [], mails = [], response = Response 400 [FaltanDatos] None\<rparr>
   \<and> falsy (JNum ''0'')
   \<and> createRequest dosPendientes 3 (JNum ''0'') (JStr ''hola'') =
        \<lparr>commits = [], mails = [], response = Response 400 [FaltanDatos] None\<rparr>
   \<and> \<not> falsy (JStr ''99999999999999999999'') \<and> \<not> falsy (JStr ''hola'')
   \<and> parseInt (JStr ''99999999999999999999'') = Some 100000000000000000000
   \<and> \<not> int64 100000000000000000000
   \<and> createRequest dosPendientes 3 (JStr ''99999999999999999999'') (JStr ''hola'') =
        \<lparr>commits = [], mails = [], response = Response 500 [NoSePudoEnviar] None\<rparr>
   \<and> \<not> falsy (JNum ''-5'') \<and> parseInt (JNum ''-5'') = Some (- 5) \<and> int64 (- 5)
   \<and> findPublicacion dosPendientes (- 5) = None
   \<and> createRequest dosPendientes 3 (JNum ''-5'') (JStr ''hola'') =
        \<lparr>commits = [], mails = [], response = Response 404 [PublicacionNoEncontrada] None\<rparr>
   \<and> \<not> falsy (JStr ''0'') \<and> parseInt (JStr ''0'') = Some 0 \<and> int64 0
   \<and> findPublicacion dosPendientes 0 = None
   \<and> createRequest dosPendientes 3 (JStr ''0'') (JStr ''hola'') =
        \<lparr>commits = [], mails = [], response = Response 404 [PublicacionNoEncontrada] None\<rparr>
   \<and> \<not> falsy (JNum ''1'') \<and> parseInt (JNum ''1'') = Some 1
   \<and> createRequest unaAprobada 2 (JNum ''1'') (JStr ''hola'') =
        \<lparr>commits = [], mails = [], response = Response 400 [PublicacionNoDisponible] None\<rparr>
   \<and> \<not> falsy (JStr [CHR 0xC2, CHR 0xA0, CHR ''1''])
   \<and> parseInt (JStr [CHR 0xC2, CHR 0xA0, CHR ''1'']) = Some 1
   \<and> createRequest unaAprobada 2 (JStr [CHR 0xC2, CHR 0xA0, CHR ''1'']) (JStr ''hola'') =
        \<lparr>commits = [], mails = [], response = Response 400 [PublicacionNoDisponible] None\<rparr>
   \<and> createRequest dosPendientes 1 (JNum ''1'') (JStr ''hola'') =
        \<lparr>commits = [], mails = [], response = Response 400 [PropiaPublicacion] None\<rparr>
   \<and> \<not> int64 100000000000000000000
   \<and> createRequest dosPendientes 100000000000000000000 (JNum ''1'') (JStr ''hola'') =
        \<lparr>commits = [], mails = [], response = Response 500 [NoSePudoEnviar] None\<rparr>
   \<and> findSolicitudDe dosPendientes 2 1 \<noteq> None
   \<and> createRequest dosPendientes 2 (JNum ''1'') (JStr ''hola'') =
        \<lparr>commits = [], mails = [], response = Response 400 [SolicitudDuplicada] None\<rparr>
   \<and> \<not> falsy (JNum ''1e+21'') \<and> parseInt (JNum ''1e+21'') = Some 1
   \<and> createRequest dosPendientes 2 (JNum ''1e+21'') (JStr ''hola'') =
        \<lparr>commits = [], mails = [], response = Response 400 [SolicitudDuplicada] None\<rparr>
   \<and> findSolicitudDe unPendiente 3 1 = None \<and> findUsuario unPendiente 3 \<noteq> None
   \<and> (\<exists>i. i \<notin> set (map sol_id (solicitudes unPendiente))
        \<and> createRequest unPendiente 3 (JNum ''1'') (JStr ''yo'') =
            \<lparr>commits =
               [unPendiente\<lparr>solicitudes := solicitudes unPendiente @
                     [\<lparr>sol_id = i, sol_estado = ''Pendiente'', sol_mensaje = ''yo'',
                       sol_usuarioId = 3, sol_publicacionId = 1\<rparr>],
                   seqSolicitud := i\<rparr>],
             mails = [],
             response = Response 201 [SolicitudEnviada]
               (Some \<lparr>sol_id = i, sol_estado = ''Pendiente'', sol_mensaje = ''yo'',
                      sol_usuarioId = 3, sol_publicacionId = 1\<rparr>)\<rparr>)
   \<and> \<not> falsy (JNum ''7'') \<and> int64 3
   \<and> createRequest unPendiente 3 (JNum ''1'') (JNum ''7'') =
        \<lparr>commits = [], mails = [], response = Response 500 [NoSePudoEnviar] None\<rparr>"
proof -
  let ?pd = "\<lparr>pub_id = 1, pub_foto = ''data:image/png;base64,AAAA'',
           pub_estado = ''disponible'', pub_usuarioId = 1\<rparr>"
  let ?pn = "\<lparr>pub_id = 1, pub_foto = ''data:image/png;base64,AAAA'',
           pub_estado = ''no disponible'', pub_usuarioId = 1\<rparr>"
  let ?G = "100000000000000000000 :: int"
  have c1: "createRequest dosPendientes 3 JUndefined (JStr ''hola'') =
        \<lparr>commits = [], mails = [], response = Response 400 [FaltanDatos] None\<rparr>"
    using create_request_checks[of JUndefined "JStr ''hola''" dosPendientes 3 0 ?pd "''''"]
    by simp
  have c1b: "createRequest dosPendientes 3 (JNum ''0'') (JStr ''hola'') =
        \<lparr>commits = [], mails = [], response = Response 400 [FaltanDatos] None\<rparr>"
    using create_request_checks[of "JNum ''0''" "JStr ''hola''" dosPendientes 3 0 ?pd "''''"]
    by simp
  have c1c: "createRequest dosPendientes 3 (JStr ''99999999999999999999'') (JStr ''hola'') =
        \<lparr>commits = [], mails = [], response = Response 500 [NoSePudoEnviar] None\<rparr>"
    using create_request_checks[of "JStr ''99999999999999999999''" "JStr ''hola''" dosPendientes 3
        ?G ?pd "''''"] parse_grande grande_fuera
    by simp
  have c2: "createRequest dosPendientes 3 (JNum ''-5'') (JStr ''hola'') =
        \<lparr>commits = [], mails = [], response = Response 404 [PublicacionNoEncontrada] None\<rparr>"
    using create_request_checks[of "JNum ''-5''" "JStr ''hola''" dosPendientes 3 "- 5" ?pd "''''"]
      find_pub_m5_dosPendientes parse_m5
    by (simp add: int64_def)
  have c2b: "createRequest dosPendientes 3 (JStr ''0'') (JStr ''hola'') =
        \<lparr>commits = [], mails = [], response = Response 404 [PublicacionNoEncontrada] None\<rparr>"
    using create_request_checks[of "JStr ''0''" "JStr ''hola''" dosPendientes 3 0 ?pd "''''"]
      find_pub_0_dosPendientes parse_0
    by (simp add: int64_def)
  have c3: "createRequest unaAprobada 2 (JNum ''1'') (JStr ''hola'') =
        \<lparr>commits = [], mails = [], response = Response 400 [PublicacionNoDisponible] None\<rparr>"
    using create_request_checks[of "JNum ''1''" "JStr ''hola''" unaAprobada 2 1 ?pn "''''"]
      find_pub_1_unaAprobada parse_1
    by simp
  have c3b: "createRequest unaAprobada 2 (JStr [CHR 0xC2, CHR 0xA0, CHR ''1'']) (JStr ''hola'') =
        \<lparr>commits = [], mails = [], response = Response 400 [PublicacionNoDisponible] None\<rparr>"
    using create_request_checks[of "JStr [CHR 0xC2, CHR 0xA0, CHR ''1'']" "JStr ''hola''"
        unaAprobada 2 1 ?pn "''''"]
      find_pub_1_unaAprobada parse_nbsp_1
    by simp
  have c4: "createRequest dosPendientes 1 (JNum ''1'') (JStr ''hola'') =
        \<lparr>commits = [], mails = [], response = Response 400 [PropiaPublicacion] None\<rparr>"
    using create_request_checks[of "JNum ''1''" "JStr ''hola''" dosPendientes 1 1 ?pd "''''"]
      find_pub_1_dosPendientes parse_1
    by simp
  have c4b: "createRequest dosPendientes ?G (JNum ''1'') (JStr ''hola'') =
        \<lparr>commits = [], mails = [], response = Response 500 [NoSePudoEnviar] None\<rparr>"
    using create_request_checks[of "JNum ''1''" "JStr ''hola''" dosPendientes ?G 1 ?pd "''''"]
      find_pub_1_dosPendientes parse_1 grande_fuera
    by simp
  have c5: "createRequest dosPendientes 2 (JNum ''1'') (JStr ''hola'') =
        \<lparr>commits = [], mails = [], response = Response 400 [SolicitudDuplicada] None\<rparr>"
    using create_request_checks[of "JNum ''1''" "JStr ''hola''" dosPendientes 2 1 ?pd "''''"]
      find_pub_1_dosPendientes find_sol_de_2_dosPendientes parse_1
    by simp
  have c5b: "createRequest dosPendientes 2 (JNum ''1e+21'') (JStr ''hola'') =
        \<lparr>commits = [], mails = [], response = Response 400 [SolicitudDuplicada] None\<rparr>"
    using create_request_checks[of "JNum ''1e+21''" "JStr ''hola''" dosPendientes 2 1 ?pd "''''"]
      find_pub_1_dosPendientes find_sol_de_2_dosPendientes parse_1e21
    by simp
  have c6: "\<exists>i. i \<notin> set (map sol_id (solicitudes unPendiente))
        \<and> createRequest unPendiente 3 (JNum ''1'') (JStr ''yo'') =
            \<lparr>commits =
               [unPendiente\<lparr>solicitudes := solicitudes unPendiente @
                     [\<lparr>sol_id = i, sol_estado = ''Pendiente'', sol_mensaje = ''yo'',
                       sol_usuarioId = 3, sol_publicacionId = 1\<rparr>],
                   seqSolicitud := i\<rparr>],
             mails = [],
             response = Response 201 [SolicitudEnviada]
               (Some \<lparr>sol_id = i, sol_estado = ''Pendiente'', sol_mensaje = ''yo'',
                      sol_usuarioId = 3, sol_publicacionId = 1\<rparr>)\<rparr>"
    using create_request_checks[of "JNum ''1''" "JStr ''yo''" unPendiente 3 1 ?pd "''yo''"]
      find_pub_1_unPendiente find_sol_de_3_unPendiente find_usr_3_unPendiente parse_1
    by simp
  have c7: "createRequest unPendiente 3 (JNum ''1'') (JNum ''7'') =
        \<lparr>commits = [], mails = [], response = Response 500 [NoSePudoEnviar] None\<rparr>"
    using create_request_checks[of "JNum ''1''" "JNum ''7''" unPendiente 3 1 ?pd "''''"]
      find_pub_1_unPendiente find_sol_de_3_unPendiente parse_1
    by (simp add: int64_def)
  have f: "falsy JUndefined" "falsy (JNum ''0'')" "\<not> falsy (JStr ''99999999999999999999'')"
    "\<not> falsy (JStr ''hola'')" "\<not> falsy (JNum ''-5'')" "\<not> falsy (JStr ''0'')"
    "\<not> falsy (JNum ''1'')" "\<not> falsy (JStr [CHR 0xC2, CHR 0xA0, CHR ''1''])"
    "\<not> falsy (JNum ''1e+21'')" "\<not> falsy (JNum ''7'')"
    by simp_all
  have p: "parseInt (JStr ''99999999999999999999'') = Some ?G"
    "parseInt (JNum ''-5'') = Some (- 5)" "parseInt (JStr ''0'') = Some 0"
    "parseInt (JNum ''1'') = Some 1" "parseInt (JStr [CHR 0xC2, CHR 0xA0, CHR ''1'']) = Some 1"
    "parseInt (JNum ''1e+21'') = Some 1"
    by (simp_all add: parse_grande parse_m5 parse_0 parse_1 parse_nbsp_1 parse_1e21)
  have r: "\<not> int64 ?G" "int64 (- 5)" "int64 0" "int64 3"
    by (simp_all add: int64_def)
  show ?thesis
    by (intro conjI f p r c1 c1b c1c c2 c2b c3 c3b c4 c4b c5 c5b c6 c7
        find_pub_m5_dosPendientes find_pub_0_dosPendientes find_sol_de_2_dosPendientes
        find_sol_de_3_unPendiente find_usr_3_unPendiente)
qed

subsection \<open>A request for one's own publication\<close>

text \<open>
  Claim C6. \<^verbatim>\<open>createRequest\<close> by the owner of an existing publication, with a
  publication id and a message that pass the first check, answers 400 with a Conflict
  message whatever the state of the publication is: "Esta publicacion no esta
  disponible para adopcion" when the state is not \<^verbatim>\<open>disponible\<close>, and "No puedes
  solicitar adopcion de tu propia publicacion" when it is. Nothing is committed.
\<close>

theorem own_publication_conflict:
  assumes "\<not> falsy publicacionId" and "\<not> falsy mensaje"
    and "parseInt publicacionId = Some (pub_id p)"
    and "findPublicacion d (pub_id p) = Some p"
    and "pub_usuarioId p = u"
  shows "createRequest d u publicacionId mensaje =
           \<lparr>commits = [], mails = [],
            response = Response 400
              [if pub_estado p = ''disponible'' then PropiaPublicacion else PublicacionNoDisponible]
              None\<rparr>
         \<and> kindOf (response (createRequest d u publicacionId mensaje)) = Conflict
         \<and> finalDb d (createRequest d u publicacionId mensaje) = d"
  using assms findPublicacion_int64[OF assms(4)]
  by (simp add: createRequest_def reply_def finalDb_def)

theorem own_publication_conflict_witness:
  "\<not> falsy (JNum ''1'') \<and> \<not> falsy (JStr ''mio'') \<and> parseInt (JNum ''1'') = Some 1
   \<and> findPublicacion dosPendientes 1 =
       Some \<lparr>pub_id = 1, pub_foto = ''data:image/png;base64,AAAA'',
             pub_estado = ''disponible'', pub_usuarioId = 1\<rparr>
   \<and> findPublicacion unaAprobada 1 =
       Some \<lparr>pub_id = 1, pub_foto = ''data:image/png;base64,AAAA'',
             pub_estado = ''no disponible'', pub_usuarioId = 1\<rparr>
   \<and> createRequest dosPendientes 1 (JNum ''1'') (JStr ''mio'') =
       \<lparr>commits = [], mails = [], response = Response 400 [PropiaPublicacion] None\<rparr>
   \<and> createRequest unaAprobada 1 (JNum ''1'') (JStr ''mio'') =
       \<lparr>commits = [], mails = [], response = Response 400 [PublicacionNoDisponible] None\<rparr>"
proof -
  have a: "createRequest dosPendientes 1 (JNum ''1'') (JStr ''mio'') =
       \<lparr>commits = [], mails = [], response = Response 400 [PropiaPublicacion] None\<rparr>"
    using own_publication_conflict[of "JNum ''1''" "JStr ''mio''"
        "\<lparr>pub_id = 1, pub_foto = ''data:image/png;base64,AAAA'',
          pub_estado = ''disponible'', pub_usuarioId = 1\<rparr>" dosPendientes 1]
      find_pub_1_dosPendientes parse_1
    by simp
  have b: "createRequest unaAprobada 1 (JNum ''1'') (JStr ''mio'') =
       \<lparr>commits = [], mails = [], response = Response 400 [PublicacionNoDisponible] None\<rparr>"
    using own_publication_conflict[of "JNum ''1''" "JStr ''mio''"
        "\<lparr>pub_id = 1, pub_foto = ''data:image/png;base64,AAAA'',
          pub_estado = ''no disponible'', pub_usuarioId = 1\<rparr>" unaAprobada 1]
      find_pub_1_unaAprobada parse_1
    by simp
  from a b find_pub_1_dosPendientes find_pub_1_unaAprobada parse_1 show ?thesis by simp
qed

subsection \<open>Asking for the state a request already has\<close>

text \<open>
  Claim C7. When the request is not approved and the target state is the state it has,
  \<^verbatim>\<open>actualizarEstadoSolicitud\<close> called by the owner commits nothing, sends no mail and
  answers 200 with the request as it was read.
\<close>

theorem same_state_is_no_op:
  assumes "parseIntStr idParam = Some i"
    and "findSolicitud d i = Some s"
    and "sol_estado s \<noteq> ''Aprobada''"
    and "sol_estado s \<in> {''Pendiente'', ''Rechazada''}"
    and "findPublicacion d (sol_publicacionId s) = Some p"
    and "pub_usuarioId p = ownerId"
  shows "actualizarEstadoSolicitud mailOk d ownerId idParam (JStr (sol_estado s)) =
           \<lparr>commits = [], mails = [], response = Response 200 [EstadoYaActualizado] (Some s)\<rparr>
         \<and> finalDb d (actualizarEstadoSolicitud mailOk d ownerId idParam (JStr (sol_estado s))) = d
         \<and> kindOf (response (actualizarEstadoSolicitud mailOk d ownerId idParam (JStr (sol_estado s))))
             = Success"
proof -
  have e: "estadoPermitido (JStr (sol_estado s)) = Some (sol_estado s)"
    using assms(4) by (auto simp: estadosPermitidos_def)
  have "actualizarEstadoSolicitud mailOk d ownerId idParam (JStr (sol_estado s)) =
           \<lparr>commits = [], mails = [], response = Response 200 [EstadoYaActualizado] (Some s)\<rparr>"
    using assms(1,2,3,5,6) e findSolicitud_int64[OF assms(2)]
    by (simp add: actualizarEstadoSolicitud_def)
  then show ?thesis by (simp add: finalDb_def)
qed

theorem same_state_is_no_op_witness:
  "parseIntStr ''2'' = Some 2
   \<and> findSolicitud unaAprobada 2 =
       Some \<lparr>sol_id = 2, sol_estado = ''Rechazada'', sol_mensaje = ''yo'',
             sol_usuarioId = 3, sol_publicacionId = 1\<rparr>
   \<and> findPublicacion unaAprobada 1 =
       Some \<lparr>pub_id = 1, pub_foto = ''data:image/png;base64,AAAA'',
             pub_estado = ''no disponible'', pub_usuarioId = 1\<rparr>
   \<and> actualizarEstadoSolicitud True unaAprobada 1 ''2'' (JStr ''Rechazada'') =
       \<lparr>commits = [], mails = [],
        response = Response 200 [EstadoYaActualizado]
          (Some \<lparr>sol_id = 2, sol_estado = ''Rechazada'', sol_mensaje = ''yo'',
                 sol_usuarioId = 3, sol_publicacionId = 1\<rparr>)\<rparr>"
proof -
  have h: "findPublicacion unaAprobada
             (sol_publicacionId \<lparr>sol_id = 2, sol_estado = ''Rechazada'', sol_mensaje = ''yo'',
                                 sol_usuarioId = 3, sol_publicacionId = 1\<rparr>) =
           Some \<lparr>pub_id = 1, pub_foto = ''data:image/png;base64,AAAA'',
                 pub_estado = ''no disponible'', pub_usuarioId = 1\<rparr>"
    using find_pub_1_unaAprobada by simp
  have a: "actualizarEstadoSolicitud True unaAprobada 1 ''2'' (JStr ''Rechazada'') =
       \<lparr>commits = [], mails = [],
        response = Response 200 [EstadoYaActualizado]
          (Some \<lparr>sol_id = 2, sol_estado = ''Rechazada'', sol_mensaje = ''yo'',
                 sol_usuarioId = 3, sol_publicacionId = 1\<rparr>)\<rparr>"
    using same_state_is_no_op[OF parse_2 find_sol_2_unaAprobada _ _ h, of 1 True] by simp
  from parse_2 find_sol_2_unaAprobada find_pub_1_unaAprobada a show ?thesis by simp
qed

subsection \<open>The first two checks of a change of state\<close>

text \<open>
  Claim C8, as stated, fails. The path parameter \<^verbatim>\<open>abc\<close> does not parse, and the
  handler answers 500 "Error interno del servidor", which is Internal and not
  ValidationError; the parameter \<^verbatim>\<open>-3\<close> parses to an integer that is not positive,
  passes the check and ends in 404 "Solicitud no encontrada".
\<close>

theorem invalid_id_counterexample:
  "parseIntStr ''abc'' = None
   \<and> actualizarEstadoSolicitud True dosPendientes 1 ''abc'' (JStr ''Aprobada'') =
       \<lparr>commits = [], mails = [], response = Response 500 [ErrorInternoIdInvalido] None\<rparr>
   \<and> kindOf (response (actualizarEstadoSolicitud True dosPendientes 1 ''abc'' (JStr ''Aprobada'')))
       = Internal
   \<and> kindOf (response (actualizarEstadoSolicitud True dosPendientes 1 ''abc'' (JStr ''Aprobada'')))
       \<noteq> ValidationError
   \<and> parseIntStr ''-3'' = Some (- 3)
   \<and> kindOf (response (actualizarEstadoSolicitud True dosPendientes 1 ''-3'' (JStr ''Aprobada'')))
       = NotFound"
  by (simp add: actualizarEstadoSolicitud_def parse_abc parse_m3 find_sol_m3_dosPendientes
      reply_def estadosPermitidos_def int64_def)

text \<open>
  Claim C8, amended. When \<^verbatim>\<open>parseInt\<close> of the path parameter is \<^verbatim>\<open>NaN\<close>, the handler
  answers 500 "Error interno del servidor" (Internal), whatever the target state is.
  When the parameter parses to an integer, of any sign and size, and the target state is
  none of \<^verbatim>\<open>Pendiente\<close>, \<^verbatim>\<open>Aprobada\<close>, \<^verbatim>\<open>Rechazada\<close>, it answers 400 "Estado no valido"
  (ValidationError). A parameter that parses to zero or to a negative integer is not
  refused as malformed; with a permitted target state, when the integer is in the range
  of a key and no request has that key the answer is 404 "Solicitud no encontrada"
  (NotFound), and when the integer is outside the range of a key the lookup throws and
  the answer is 500 "Error interno del servidor" (Internal). In the four cases nothing is
  committed and no mail is sent.
\<close>

theorem change_status_validation:
  "(parseIntStr idParam = None \<longrightarrow>
      actualizarEstadoSolicitud mailOk d userId idParam nuevoEstado =
        \<lparr>commits = [], mails = [], response = Response 500 [ErrorInternoIdInvalido] None\<rparr>
      \<and> kindOf (response (actualizarEstadoSolicitud mailOk d userId idParam nuevoEstado)) = Internal)
   \<and> (parseIntStr idParam \<noteq> None
        \<and> nuevoEstado \<notin> {JStr ''Pendiente'', JStr ''Aprobada'', JStr ''Rechazada''} \<longrightarrow>
      actualizarEstadoSolicitud mailOk d userId idParam nuevoEstado =
        \<lparr>commits = [], mails = [], response = Response 400 [EstadoNoValido] None\<rparr>
      \<and> kindOf (response (actualizarEstadoSolicitud mailOk d userId idParam nuevoEstado))
          = ValidationError)
   \<and> (parseIntStr idParam = Some i \<and> int64 i \<and> findSolicitud d i = None
        \<and> nuevoEstado \<in> {JStr ''Pendiente'', JStr ''Aprobada'', JStr ''Rechazada''} \<longrightarrow>
      actualizarEstadoSolicitud mailOk d userId idParam nuevoEstado =
        \<lparr>commits = [], mails = [], response = Response 404 [SolicitudNoEncontrada] None\<rparr>
      \<and> kindOf (response (actualizarEstadoSolicitud mailOk d userId idParam nuevoEstado)) = NotFound)
   \<and> (parseIntStr idParam = Some i \<and> \<not> int64 i
        \<and> nuevoEstado \<in> {JStr ''Pendiente'', JStr ''Aprobada'', JStr ''Rechazada''} \<longrightarrow>
      actualizarEstadoSolicitud mailOk d userId idParam nuevoEstado =
        \<lparr>commits = [], mails = [], response = Response 500 [ErrorInterno] None\<rparr>
      \<and> kindOf (response (actualizarEstadoSolicitud mailOk d userId idParam nuevoEstado)) = Internal)"
proof (intro conjI impI)
  assume "parseIntStr idParam = None"
  then have "actualizarEstadoSolicitud mailOk d userId idParam nuevoEstado =
      reply 500 ErrorInternoIdInvalido"
    by (simp add: actualizarEstadoSolicitud_def)
  then show "actualizarEstadoSolicitud mailOk d userId idParam nuevoEstado =
        \<lparr>commits = [], mails = [], response = Response 500 [ErrorInternoIdInvalido] None\<rparr>"
    and "kindOf (response (actualizarEstadoSolicitud mailOk d userId idParam nuevoEstado)) = Internal"
    by (simp_all add: reply_def)
next
  assume a: "parseIntStr idParam \<noteq> None
        \<and> nuevoEstado \<notin> {JStr ''Pendiente'', JStr ''Aprobada'', JStr ''Rechazada''}"
  then have "estadoPermitido nuevoEstado = None" by (simp add: estadoPermitido_None)
  with a have "actualizarEstadoSolicitud mailOk d userId idParam nuevoEstado =
      reply 400 EstadoNoValido"
    by (auto simp: actualizarEstadoSolicitud_def)
  then show "actualizarEstadoSolicitud mailOk d userId idParam nuevoEstado =
        \<lparr>commits = [], mails = [], response = Response 400 [EstadoNoValido] None\<rparr>"
    and "kindOf (response (actualizarEstadoSolicitud mailOk d userId idParam nuevoEstado))
          = ValidationError"
    by (simp_all add: reply_def)
next
  assume a: "parseIntStr idParam = Some i \<and> int64 i \<and> findSolicitud d i = None
        \<and> nuevoEstado \<in> {JStr ''Pendiente'', JStr ''Aprobada'', JStr ''Rechazada''}"
  then obtain e where "estadoPermitido nuevoEstado = Some e"
    by (auto simp: estadosPermitidos_def)
  with a have "actualizarEstadoSolicitud mailOk d userId idParam nuevoEstado =
      reply 404 SolicitudNoEncontrada"
    by (simp add: actualizarEstadoSolicitud_def)
  then show "actualizarEstadoSolicitud mailOk d userId idParam nuevoEstado =
        \<lparr>commits = [], mails = [], response = Response 404 [SolicitudNoEncontrada] None\<rparr>"
    and "kindOf (response (actualizarEstadoSolicitud mailOk d userId idParam nuevoEstado)) = NotFound"
    by (simp_all add: reply_def)
next
  assume a: "parseIntStr idParam = Some i \<and> \<not> int64 i
        \<and> nuevoEstado \<in> {JStr ''Pendiente'', JStr ''Aprobada'', JStr ''Rechazada''}"
  then obtain e where "estadoPermitido nuevoEstado = Some e"
    by (auto simp: estadosPermitidos_def)
  with a have "actualizarEstadoSolicitud mailOk d userId idParam nuevoEstado =
      reply 500 ErrorInterno"
    by (simp add: actualizarEstadoSolicitud_def)
  then show "actualizarEstadoSolicitud mailOk d userId idParam nuevoEstado =
        \<lparr>commits = [], mails = [], response = Response 500 [ErrorInterno] None\<rparr>"
    and "kindOf (response (actualizarEstadoSolicitud mailOk d userId idParam nuevoEstado)) = Internal"
    by (simp_all add: reply_def)
qed

theorem change_status_validation_witness:
  "parseIntStr ''abc'' = None
   \<and> actualizarEstadoSolicitud True dosPendientes 1 ''abc'' (JStr ''Adoptada'') =
        \<lparr>commits = [], mails = [], response = Response 500 [ErrorInternoIdInvalido] None\<rparr>
   \<and> parseIntStr ''1'' \<noteq> None
   \<and> JStr ''Adoptada'' \<notin> {JStr ''Pendiente'', JStr ''Aprobada'', JStr ''Rechazada''}
   \<and> actualizarEstadoSolicitud True dosPendientes 1 ''1'' (JStr ''Adoptada'') =
        \<lparr>commits = [], mails = [], response = Response 400 [EstadoNoValido] None\<rparr>
   \<and> parseIntStr ''-99999999999999999999'' \<noteq> None
   \<and> actualizarEstadoSolicitud True dosPendientes 1 ''-99999999999999999999'' (JStr ''Adoptada'') =
        \<lparr>commits = [], mails = [], response = Response 400 [EstadoNoValido] None\<rparr>
   \<and> parseIntStr ''-3'' = Some (- 3) \<and> int64 (- 3) \<and> findSolicitud dosPendientes (- 3) = None
   \<and> JStr ''Aprobada'' \<in> {JStr ''Pendiente'', JStr ''Aprobada'', JStr ''Rechazada''}
   \<and> actualizarEstadoSolicitud True dosPendientes 1 ''-3'' (JStr ''Aprobada'') =
        \<lparr>commits = [], mails = [], response = Response 404 [SolicitudNoEncontrada] None\<rparr>
   \<and> parseIntStr [CHR 0xC2, CHR 0xA0, CHR ''0''] = Some 0 \<and> int64 0
   \<and> findSolicitud dosPendientes 0 = None
   \<and> actualizarEstadoSolicitud True dosPendientes 1 [CHR 0xC2, CHR 0xA0, CHR ''0''] (JStr ''Aprobada'') =
        \<lparr>commits = [], mails = [], response = Response 404 [SolicitudNoEncontrada] None\<rparr>
   \<and> parseIntStr ''-99999999999999999999'' = Some (- 100000000000000000000)
   \<and> \<not> int64 (- 100000000000000000000)
   \<and> actualizarEstadoSolicitud True dosPendientes 1 ''-99999999999999999999'' (JStr ''Aprobada'') =
        \<lparr>commits = [], mails = [], response = Response 500 [ErrorInterno] None\<rparr>"
proof -
  let ?G = "- 100000000000000000000 :: int"
  have w1: "actualizarEstadoSolicitud True dosPendientes 1 ''abc'' (JStr ''Adoptada'') =
        \<lparr>commits = [], mails = [], response = Response 500 [ErrorInternoIdInvalido] None\<rparr>"
    using change_status_validation[of "''abc''" True dosPendientes 1 "JStr ''Adoptada''" 0] parse_abc
    by simp
  have w2: "actualizarEstadoSolicitud True dosPendientes 1 ''1'' (JStr ''Adoptada'') =
        \<lparr>commits = [], mails = [], response = Response 400 [EstadoNoValido] None\<rparr>"
    using change_status_validation[of "''1''" True dosPendientes 1 "JStr ''Adoptada''" 0] parse_1
    by simp
  have w2b: "actualizarEstadoSolicitud True dosPendientes 1 ''-99999999999999999999'' (JStr ''Adoptada'') =
        \<lparr>commits = [], mails = [], response = Response 400 [EstadoNoValido] None\<rparr>"
    using change_status_validation[of "''-99999999999999999999''" True dosPendientes 1
        "JStr ''Adoptada''" 0] parse_m_grande
    by simp
  have w3: "actualizarEstadoSolicitud True dosPendientes 1 ''-3'' (JStr ''Aprobada'') =
        \<lparr>commits = [], mails = [], response = Response 404 [SolicitudNoEncontrada] None\<rparr>"
    using change_status_validation[of "''-3''" True dosPendientes 1 "JStr ''Aprobada''" "- 3"]
      parse_m3 find_sol_m3_dosPendientes
    by (simp add: int64_def)
  have w3b: "actualizarEstadoSolicitud True dosPendientes 1 [CHR 0xC2, CHR 0xA0, CHR ''0'']
        (JStr ''Aprobada'') =
        \<lparr>commits = [], mails = [], response = Response 404 [SolicitudNoEncontrada] None\<rparr>"
    using change_status_validation[of "[CHR 0xC2, CHR 0xA0, CHR ''0'']" True dosPendientes 1
        "JStr ''Aprobada''" 0]
      parse_nbsp_0 find_sol_0_dosPendientes
    by (simp add: int64_def)
  have w4: "actualizarEstadoSolicitud True dosPendientes 1 ''-99999999999999999999'' (JStr ''Aprobada'') =
        \<lparr>commits = [], mails = [], response = Response 500 [ErrorInterno] None\<rparr>"
    using change_status_validation[of "''-99999999999999999999''" True dosPendientes 1
        "JStr ''Aprobada''" ?G]
      parse_m_grande grande_fuera
    by simp
  have p: "parseIntStr ''1'' \<noteq> None" "parseIntStr ''-99999999999999999999'' \<noteq> None"
    by (simp_all add: parse_1 parse_m_grande)
  have e: "JStr ''Adoptada'' \<notin> {JStr ''Pendiente'', JStr ''Aprobada'', JStr ''Rechazada''}"
    "JStr ''Aprobada'' \<in> {JStr ''Pendiente'', JStr ''Aprobada'', JStr ''Rechazada''}"
    by simp_all
  have r: "int64 (- 3)" "int64 0" "\<not> int64 ?G"
    by (simp_all add: int64_def)
  show ?thesis
    by (intro conjI w1 w2 w2b w3 w3b w4 p e r parse_abc parse_m3 parse_nbsp_0 parse_m_grande
        find_sol_m3_dosPendientes find_sol_0_dosPendientes)
qed

subsection \<open>A rejected request can still be approved\<close>

text \<open>
  Claim C9. The handler lets a rejected request be approved, whatever the state of the
  publication and of the other requests: from a store with three users and nothing
  else, Ana publishes Rex, Beto and Caro ask for him, Ana approves Beto's request
  (which rejects Caro's) and then approves Caro's; after these five core operations the
  two requests of publication 1 are both \<^verbatim>\<open>Aprobada\<close>.
\<close>

theorem rejected_can_be_approved:
  "run (initialDb [ana, beto, caro])
     [CreatePublication 1 rex,
      CreateRequest 2 (JNum ''1'') (JStr ''hola''),
      CreateRequest 3 (JStr ''1'') (JStr ''yo''),
      ActualizarEstado True 1 ''1'' (JStr ''Aprobada'')] = unaAprobada
   \<and> map (\<lambda>r. (sol_id r, sol_publicacionId r, sol_estado r)) (solicitudes unaAprobada)
       = [(1, 1, ''Aprobada''), (2, 1, ''Rechazada'')]
   \<and> run (initialDb [ana, beto, caro])
     [CreatePublication 1 rex,
      CreateRequest 2 (JNum ''1'') (JStr ''hola''),
      CreateRequest 3 (JStr ''1'') (JStr ''yo''),
      ActualizarEstado True 1 ''1'' (JStr ''Aprobada''),
      ActualizarEstado True 1 ''2'' (JStr ''Aprobada'')] = dosAprobadas
   \<and> map (\<lambda>r. (sol_id r, sol_publicacionId r, sol_estado r)) (solicitudes dosAprobadas)
       = [(1, 1, ''Aprobada''), (2, 1, ''Aprobada'')]"
  by (simp add: run_def step1 step2 step3 step4 step5 del: exec.simps)
     (simp add: unaAprobada_def dosAprobadas_def)

subsection \<open>What an edit can do to the state of a publication\<close>



end
